theory Spec2Isabelle
  imports Main "HOL-Library.Sublist"
begin

section \<open>Paths\<close>

text \<open>
  Paths are Python strings. \<open>join\<close> is \<^verbatim>\<open>os.path.join\<close> (POSIX) on two
  arguments; a call with three arguments is the left-nested call.
\<close>

definition sep :: char where
  "sep = CHR ''/''"

definition join :: "string \<Rightarrow> string \<Rightarrow> string" where
  "join a b =
     (if b \<noteq> [] \<and> hd b = sep then b
      else if a = [] \<or> last a = sep then a @ b
      else a @ sep # b)"

text \<open>
  The directories a path runs through: every proper prefix that is followed by a
  separator and does not itself end in one. \<open>acc\<close> is the prefix already read.
\<close>

fun ancestors_from :: "string \<Rightarrow> string \<Rightarrow> string list" where
  "ancestors_from acc [] = []"
| "ancestors_from acc (c # cs) =
     (if c = sep \<and> acc \<noteq> [] \<and> last acc \<noteq> sep then [acc] else [])
       @ ancestors_from (acc @ [c]) cs"

definition ancestors :: "string \<Rightarrow> string list" where
  "ancestors p = ancestors_from [] p"

text \<open>\<^verbatim>\<open>str.isspace\<close> on the code points below 256, and \<^verbatim>\<open>str.rstrip()\<close>.\<close>

definition isspace :: "char \<Rightarrow> bool" where
  "isspace c = ((of_char c :: nat) \<in> {9, 10, 11, 12, 13, 28, 29, 30, 31, 32, 133, 160})"

definition rstrip :: "string \<Rightarrow> string" where
  "rstrip s = rev (dropWhile isspace (rev s))"

section \<open>The file system\<close>

datatype node = File string | Dir

type_synonym filesystem = "string \<rightharpoonup> node"

datatype error =
    FileNotFoundError string
  | FileExistsError string
  | IsADirectoryError string
  | NotADirectoryError string
  | NameError string
  | OSError string
  | BuildError string

text \<open>
  A file system of the operating system keeps every entry inside directories:
  whatever exists has directories for all its ancestors.
\<close>

definition well_formed :: "filesystem \<Rightarrow> bool" where
  "well_formed fs = (\<forall>p q. fs p \<noteq> None \<longrightarrow> q \<in> set (ancestors p) \<longrightarrow> fs q = Some Dir)"

text \<open>\<^verbatim>\<open>os.path.exists\<close>, \<^verbatim>\<open>os.path.isfile\<close>.\<close>

definition exists :: "filesystem \<Rightarrow> string \<Rightarrow> bool" where
  "exists fs p = (fs p \<noteq> None)"

definition isfile :: "filesystem \<Rightarrow> string \<Rightarrow> bool" where
  "isfile fs p = (case fs p of Some (File c) \<Rightarrow> True | _ \<Rightarrow> False)"

text \<open>The first ancestor that is not a directory stops a path from resolving.\<close>

fun check_dirs :: "filesystem \<Rightarrow> string list \<Rightarrow> error option" where
  "check_dirs fs [] = None"
| "check_dirs fs (q # qs) =
     (case fs q of
        None \<Rightarrow> Some (FileNotFoundError q)
      | Some (File c) \<Rightarrow> Some (NotADirectoryError q)
      | Some Dir \<Rightarrow> check_dirs fs qs)"

text \<open>
  Python opens a file for reading in text mode with universal newlines: every
  \<^verbatim>\<open>\r\n\<close> and every \<^verbatim>\<open>\r\<close> that is left is read as \<^verbatim>\<open>\n\<close>.
\<close>

definition carriage_return :: char where
  "carriage_return = CHR 0x0D"

definition line_feed :: char where
  "line_feed = CHR 0x0A"

fun universal_newlines :: "string \<Rightarrow> string" where
  "universal_newlines [] = []"
| "universal_newlines [c] = [if c = carriage_return then line_feed else c]"
| "universal_newlines (c # d # cs) =
     (if c = carriage_return \<and> d = line_feed then line_feed # universal_newlines cs
      else if c = carriage_return then line_feed # universal_newlines (d # cs)
      else c # universal_newlines (d # cs))"

text \<open>
  \<^verbatim>\<open>open(p).read()\<close> and \<^verbatim>\<open>open(p, "r").read()\<close>: the text of a regular file, as
  text mode gives it. (Writing in text mode changes nothing on POSIX.)
\<close>

definition read_file :: "filesystem \<Rightarrow> string \<Rightarrow> error + string" where
  "read_file fs p =
     (case check_dirs fs (ancestors p) of
        Some e \<Rightarrow> Inl e
      | None \<Rightarrow>
          (case fs p of
             None \<Rightarrow> Inl (FileNotFoundError p)
           | Some Dir \<Rightarrow> Inl (IsADirectoryError p)
           | Some (File c) \<Rightarrow> Inr (universal_newlines c)))"

text \<open>
  \<^verbatim>\<open>f = open(p, "w"); f.write(c)\<close> followed by the close of \<open>f\<close>: the file is
  created or truncated inside an existing directory.
\<close>

definition write_file :: "filesystem \<Rightarrow> string \<Rightarrow> string \<Rightarrow> error + filesystem" where
  "write_file fs p c =
     (if p = [] then Inl (FileNotFoundError p)
      else case check_dirs fs (ancestors p) of
        Some e \<Rightarrow> Inl e
      | None \<Rightarrow>
          (case fs p of
             Some Dir \<Rightarrow> Inl (IsADirectoryError p)
           | _ \<Rightarrow> Inr (fs(p \<mapsto> File c))))"

text \<open>
  \<^verbatim>\<open>os.makedirs(p, exist_ok=...)\<close>: the missing ancestors are created from the
  outermost one, then the leaf; an existing leaf is accepted only when it is a directory
  and \<open>exist_ok\<close> holds.
\<close>

fun mkdir_chain :: "filesystem \<Rightarrow> string list \<Rightarrow> error + filesystem" where
  "mkdir_chain fs [] = Inr fs"
| "mkdir_chain fs (q # qs) =
     (case fs q of
        None \<Rightarrow> mkdir_chain (fs(q \<mapsto> Dir)) qs
      | Some Dir \<Rightarrow> mkdir_chain fs qs
      | Some (File c) \<Rightarrow> Inl (NotADirectoryError q))"

definition makedirs :: "filesystem \<Rightarrow> string \<Rightarrow> bool \<Rightarrow> error + filesystem" where
  "makedirs fs p exist_ok =
     (if p = [] then Inl (FileNotFoundError p)
      else case mkdir_chain fs (ancestors p) of
        Inl e \<Rightarrow> Inl e
      | Inr fs1 \<Rightarrow>
          (case fs1 p of
             None \<Rightarrow> Inr (fs1(p \<mapsto> Dir))
           | Some Dir \<Rightarrow> if exist_ok then Inr fs1 else Inl (FileExistsError p)
           | Some (File c) \<Rightarrow> Inl (FileExistsError p)))"

text \<open>\<^verbatim>\<open>shutil.rmtree(p)\<close>: the directory and everything that lies below it.\<close>

definition below :: "string \<Rightarrow> string \<Rightarrow> bool" where
  "below root p = (root \<in> set (ancestors p))"

definition rmtree :: "filesystem \<Rightarrow> string \<Rightarrow> error + filesystem" where
  "rmtree fs p =
     (case fs p of
        None \<Rightarrow> Inl (FileNotFoundError p)
      | Some (File c) \<Rightarrow> Inl (NotADirectoryError p)
      | Some Dir \<Rightarrow> Inr (\<lambda>q. if q = p \<or> below p q then None else fs q))"

section \<open>The environment of the process\<close>

text \<open>
  What the module reads from outside itself: the home directory
  (\<^verbatim>\<open>os.path.expanduser("~")\<close>), the package directory, \<^verbatim>\<open>keops.__version__\<close>,
  \<^verbatim>\<open>platform.system()\<close>, the environment variables,
  \<^verbatim>\<open>ctypes.util.find_library\<close> and whether \<^verbatim>\<open>ctypes.CDLL\<close> can open a library
  (\<open>dlopen_ok\<close>; the argument \<open>None\<close> opens the running program itself). The names
  imported from \<^verbatim>\<open>keops.utils.gpu_utils\<close>, which is not among the sources, are
  parameters as well: the device count reported by \<^verbatim>\<open>get_gpu_props()[0]\<close>, the two
  library folders, \<^verbatim>\<open>get_cuda_include_path()\<close> and \<^verbatim>\<open>get_cuda_version()\<close>. The last four
  fields are the parameters of the kernel registry: the file name derived from a signature,
  the compiler run on a source text with a flag string (\<open>None\<close> when it fails; the
  first argument counts the runs so far, so that a failure can be transient), whether an
  artifact loads, and the binary the compiler gives for the GPU JIT launcher.
\<close>

record env =
  home :: string
  base_dir_path :: string
  version :: string
  platform_system :: string
  getenv :: "string \<rightharpoonup> string"
  find_library :: "string \<rightharpoonup> string"
  dlopen_ok :: "string option \<Rightarrow> bool"
  gpu_device_count :: nat
  gpu_libcuda_folder :: string
  gpu_libnvrtc_folder :: string
  gpu_cuda_include_path :: "string option"
  gpu_cuda_version :: int
  artifact_name :: "string \<Rightarrow> string"
  toolchain :: "nat \<Rightarrow> string \<Rightarrow> string \<Rightarrow> string option"
  load_ok :: "string \<Rightarrow> bool"
  jit_launcher_binary :: string

definition bindings_source_dir :: "env \<Rightarrow> string" where
  "bindings_source_dir e = base_dir_path e"

definition keops_cache_folder :: "env \<Rightarrow> string" where
  "keops_cache_folder e = join (join (home e) ''.cache'') ''keops''"

definition default_build_path :: "env \<Rightarrow> string" where
  "default_build_path e = join (keops_cache_folder e) ''build''"

definition version_cache_file :: "env \<Rightarrow> string" where
  "version_cache_file e = join (keops_cache_folder e) ''keops_version''"

section \<open>Cache folder initialisation (config.py, lines 21 to 39)\<close>

text \<open>
  The first block decides \<open>test_init_cache\<close>, and removes a cache of another version;
  the second block creates the folder and stamps it.
\<close>

definition check_cache :: "env \<Rightarrow> filesystem \<Rightarrow> error + (bool \<times> filesystem)" where
  "check_cache e fs =
     (if exists fs (keops_cache_folder e) then
        (case read_file fs (version_cache_file e) of
           Inl err \<Rightarrow> Inl err
         | Inr text \<Rightarrow>
             (let cache_version = rstrip text in
              if cache_version \<noteq> version e then
                (case rmtree fs (keops_cache_folder e) of
                   Inl err \<Rightarrow> Inl err
                 | Inr fs1 \<Rightarrow> Inr (True, fs1))
              else Inr (False, fs)))
      else Inr (True, fs))"

definition stamp_cache :: "env \<Rightarrow> filesystem \<Rightarrow> error + filesystem" where
  "stamp_cache e fs =
     (case makedirs fs (keops_cache_folder e) False of
        Inl err \<Rightarrow> Inl err
      | Inr fs1 \<Rightarrow> write_file fs1 (version_cache_file e) (version e))"

definition init_cache :: "env \<Rightarrow> filesystem \<Rightarrow> error + filesystem" where
  "init_cache e fs =
     (case check_cache e fs of
        Inl err \<Rightarrow> Inl err
      | Inr (test_init_cache, fs1) \<Rightarrow>
          if test_init_cache then stamp_cache e fs1 else Inr fs1)"

section \<open>The state of the process\<close>

text \<open>
  The globals of the module, the file system, the libraries opened with
  \<^verbatim>\<open>ctypes.CDLL\<close> (each with the name it was given and its mode), the diagnostics
  issued so far, and the kernel registry of \<^verbatim>\<open>keops.get_keops_dll\<close>: the loaded
  handles by signature, the folder it saves artifacts to, the counter that numbers the
  handles and the signatures the compiler was run for, in order. \<^verbatim>\<open>KeOps_Warning(msg)\<close>
  (from \<^verbatim>\<open>keops.utils.misc_utils\<close>) adds the diagnostic \<open>KeOps_Warning msg\<close>; the warning
  that \<^verbatim>\<open>get_gpu_props\<close> issues by itself is \<open>Gpu_props_warning\<close>.
\<close>

datatype dl_mode = RTLD_GLOBAL | RTLD_LOCAL

datatype diagnostic = KeOps_Warning string | Gpu_props_warning

datatype handle = Handle nat string

record state =
  fs :: filesystem
  build_path :: string
  use_cuda :: bool
  use_OpenMP :: bool
  cpp_flags :: string
  cuda_available :: bool
  cuda_version :: "int option"
  libcuda_folder :: "string option"
  libnvrtc_folder :: "string option"
  nvrtc_flags :: "string option"
  nvrtc_include :: "string option"
  cuda_include_path :: "string option"
  jit_source_file :: "string option"
  jit_source_header :: "string option"
  jit_binary :: "string option"
  init_cudalibs_flag :: bool
  loaded_libs :: "(string option \<times> dl_mode) list"
  diagnostics :: "diagnostic list"
  handles :: "string \<rightharpoonup> handle"
  save_folder :: string
  next_handle :: nat
  toolchain_log :: "string list"

text \<open>
  A call that can raise returns the error or its value, together with the state the
  process is left in: the globals and the file system keep what was done before the raise.
\<close>

type_synonym 'a outcome = "(error + 'a) \<times> state"

section \<open>The runtime library preloader (config.py, lines 155 to 165)\<close>

text \<open>\<^verbatim>\<open>CDLL(name, mode=RTLD_GLOBAL)\<close>: raises \<^verbatim>\<open>OSError\<close> when the library cannot be opened.\<close>

definition cdll_global :: "env \<Rightarrow> string option \<Rightarrow> state \<Rightarrow> unit outcome" where
  "cdll_global e name s =
     (if dlopen_ok e name
      then (Inr (), s\<lparr>loaded_libs := loaded_libs s @ [(name, RTLD_GLOBAL)]\<rparr>)
      else (Inl (OSError (case name of None \<Rightarrow> [] | Some n \<Rightarrow> n)), s))"

definition init_cudalibs :: "env \<Rightarrow> state \<Rightarrow> unit outcome" where
  "init_cudalibs e s =
     (if \<not> init_cudalibs_flag s then
        (case cdll_global e (find_library e ''nvrtc'') s of
           (Inl err, s1) \<Rightarrow> (Inl err, s1)
         | (Inr u1, s1) \<Rightarrow>
        (case cdll_global e (find_library e ''cuda'') s1 of
           (Inl err, s2) \<Rightarrow> (Inl err, s2)
         | (Inr u2, s2) \<Rightarrow>
        (case cdll_global e (find_library e ''cudart'') s2 of
           (Inl err, s3) \<Rightarrow> (Inl err, s3)
         | (Inr u3, s3) \<Rightarrow> (Inr (), s3\<lparr>init_cudalibs_flag := True\<rparr>))))
      else (Inr (), s))"

section \<open>The kernel registry\<close>

text \<open>
  Modelled from the spec: the module \<^verbatim>\<open>keops.get_keops_dll\<close> (the registry with its
  \<open>get_kernel\<close> and \<open>reset\<close>) is not among the sources. The definitions follow
  section 4.6 of the specification step by step. An artifact lives at
  \<open><build folder>/<artifact name of the signature>\<close>.
\<close>

definition artifact_path :: "env \<Rightarrow> string \<Rightarrow> string \<Rightarrow> string" where
  "artifact_path e folder sig = join folder (artifact_name e sig)"

text \<open>
  Modelled from the spec: steps 2 and 3 of \<open>get_kernel\<close>. An artifact that is already
  on disk is not compiled again; otherwise the compiler is run, which is recorded, and a
  failure raises a build error.
\<close>

definition ensure_artifact :: "env \<Rightarrow> string \<Rightarrow> string \<Rightarrow> string \<Rightarrow> state \<Rightarrow> string outcome" where
  "ensure_artifact e sig source_text config s =
     (let path = artifact_path e (save_folder s) sig in
      case fs s path of
        Some (File binary) \<Rightarrow> (Inr binary, s)
      | _ \<Rightarrow>
          (let s1 = s\<lparr>toolchain_log := toolchain_log s @ [sig]\<rparr> in
           case toolchain e (length (toolchain_log s)) source_text config of
             None \<Rightarrow> (Inl (BuildError sig), s1)
           | Some binary \<Rightarrow>
               (case write_file (fs s1) path binary of
                  Inl err \<Rightarrow> (Inl err, s1)
                | Inr fs1 \<Rightarrow> (Inr binary, s1\<lparr>fs := fs1\<rparr>))))"

text \<open>
  Modelled from the spec: step 4 of \<open>get_kernel\<close>. In GPU mode the preloader runs
  first. Every load gives a handle of its own, numbered by the counter.
\<close>

definition load_artifact :: "env \<Rightarrow> string \<Rightarrow> string \<Rightarrow> state \<Rightarrow> handle outcome" where
  "load_artifact e sig binary s =
     (case (if use_cuda s then init_cudalibs e s else (Inr (), s)) of
        (Inl err, s1) \<Rightarrow> (Inl err, s1)
      | (Inr u, s1) \<Rightarrow>
          if load_ok e binary
          then (Inr (Handle (next_handle s1) (artifact_path e (save_folder s1) sig)),
                s1\<lparr>next_handle := Suc (next_handle s1)\<rparr>)
          else (Inl (OSError (artifact_path e (save_folder s1) sig)), s1))"

text \<open>
  Modelled from the spec: \<open>get_kernel(signature, source_text, toolchain_config)\<close>,
  steps 1 to 5. A signature in the map is answered from the map alone; a failure in
  compiling or loading leaves the map as it was.
\<close>

definition get_kernel :: "env \<Rightarrow> string \<Rightarrow> string \<Rightarrow> string \<Rightarrow> state \<Rightarrow> handle outcome" where
  "get_kernel e sig source_text config s =
     (case handles s sig of
        Some h \<Rightarrow> (Inr h, s)
      | None \<Rightarrow>
          (case ensure_artifact e sig source_text config s of
             (Inl err, s1) \<Rightarrow> (Inl err, s1)
           | (Inr binary, s1) \<Rightarrow>
               (case load_artifact e sig binary s1 of
                  (Inl err, s2) \<Rightarrow> (Inl err, s2)
                | (Inr h, s2) \<Rightarrow> (Inr h, s2\<lparr>handles := (handles s2)(sig \<mapsto> h)\<rparr>))))"

text \<open>
  Modelled from the spec: \<open>reset(new_build_folder?)\<close> clears the whole map and, when a
  folder is given, makes it the folder of later artifact paths. Nothing on disk is deleted.
\<close>

definition reset :: "string option \<Rightarrow> state \<Rightarrow> state" where
  "reset new_save_folder s =
     s\<lparr>handles := Map.empty,
       save_folder := (case new_save_folder of None \<Rightarrow> save_folder s | Some p \<Rightarrow> p)\<rparr>"

text \<open>
  Modelled from the spec: \<^verbatim>\<open>keops.binders.nvrtc.Gpu_link_compile\<close> is not among the
  sources. The GPU JIT launcher is the file \<open><build_path>/keops_nvrtc.so\<close>, and
  \<open>compile_jit_compile_dll\<close> builds it there.
\<close>

definition jit_compile_dll :: "state \<Rightarrow> string" where
  "jit_compile_dll s = join (build_path s) ''keops_nvrtc.so''"

text \<open>
  Modelled from the spec: \<open>Gpu_link_compile.compile_jit_compile_dll()\<close> builds the
  launcher: the compiler's binary is written to \<open>jit_compile_dll()\<close>.
\<close>

definition compile_jit_compile_dll :: "env \<Rightarrow> state \<Rightarrow> unit outcome" where
  "compile_jit_compile_dll e s =
     (case write_file (fs s) (jit_compile_dll s) (jit_launcher_binary e) of
        Inl err \<Rightarrow> (Inl err, s)
      | Inr fs1 \<Rightarrow> (Inr (), s\<lparr>fs := fs1\<rparr>))"

section \<open>The build folder (config.py, lines 46 to 66)\<close>

text \<open>Python's truth value of the argument \<open>path\<close>: \<open>None\<close> and the empty string are false.\<close>

definition truthy :: "string option \<Rightarrow> bool" where
  "truthy p = (case p of None \<Rightarrow> False | Some x \<Rightarrow> x \<noteq> [])"

definition save_file :: "env \<Rightarrow> string" where
  "save_file e = join (keops_cache_folder e) ''build_folder_location.txt''"

text \<open>Lines 48 to 54: the folder that is chosen.\<close>

definition choose_path :: "env \<Rightarrow> string option \<Rightarrow> bool \<Rightarrow> filesystem \<Rightarrow> error + string" where
  "choose_path e path read_save_file fsys =
     (if \<not> truthy path then
        (if read_save_file \<and> isfile fsys (save_file e)
         then read_file fsys (save_file e)
         else Inr (default_build_path e))
      else Inr (the path))"

text \<open>Lines 60 to 66: the part that runs under \<open>reset_all\<close>.\<close>

definition reset_and_provision :: "env \<Rightarrow> state \<Rightarrow> unit outcome" where
  "reset_and_provision e s =
     (let s1 = reset (Some (build_path s)) s in
      if use_cuda s1 then
        (if \<not> exists (fs s1) (jit_compile_dll s1)
         then compile_jit_compile_dll e s1
         else (Inr (), s1))
      else (Inr (), s1))"

definition set_build_folder ::
    "env \<Rightarrow> string option \<Rightarrow> bool \<Rightarrow> bool \<Rightarrow> state \<Rightarrow> unit outcome" where
  "set_build_folder e path read_save_file reset_all s =
     (case choose_path e path read_save_file (fs s) of
        Inl err \<Rightarrow> (Inl err, s)
      | Inr path1 \<Rightarrow>
          (let s1 = s\<lparr>build_path := path1\<rparr> in
           case makedirs (fs s1) path1 True of
             Inl err \<Rightarrow> (Inl err, s1)
           | Inr fs1 \<Rightarrow>
               (let s2 = s1\<lparr>fs := fs1\<rparr> in
                case write_file (fs s2) (save_file e) path1 of
                  Inl err \<Rightarrow> (Inl err, s2)
                | Inr fs2 \<Rightarrow>
                    (let s3 = s2\<lparr>fs := fs2\<rparr> in
                     if reset_all then reset_and_provision e s3 else (Inr (), s3)))))"

section \<open>Compiler flags (config.py, lines 76 to 102)\<close>

definition cxx_compiler :: string where
  "cxx_compiler = ''g++''"

definition compile_options :: string where
  "compile_options = '' -shared -fPIC -O3 -std=c++11''"

text \<open>
  Lines 84 to 96, run when \<open>use_OpenMP\<close> holds: the new value of \<open>use_OpenMP\<close>, the
  flags and the diagnostics issued.
\<close>

definition openmp_block :: "env \<Rightarrow> string \<Rightarrow> bool \<times> string \<times> diagnostic list" where
  "openmp_block e flags =
     (if platform_system e = ''Darwin'' then
        (if \<not> (getenv e ''KMP_DUPLICATE_LIB_OK'' = Some ''TRUE'') then
           (False, flags,
            [KeOps_Warning
               ''OpenMP support is disabled on Mac by default, see the doc for enabling it.''])
         else (True, flags @ '' -Xclang -fopenmp -lomp '', []))
      else (True, flags @ '' -fopenmp -fno-fat-lto-objects'', []))"

text \<open>
  Lines 81 to 102. The module \<open>platform\<close> is imported inside the block of
  \<open>use_OpenMP\<close> only, so that line 99 raises \<^verbatim>\<open>NameError\<close> when \<open>use_OpenMP\<close> was
  set to false at line 11.
\<close>

definition assemble_cpp_flags :: "env \<Rightarrow> bool \<Rightarrow> error + (bool \<times> string \<times> diagnostic list)" where
  "assemble_cpp_flags e use_OpenMP0 =
     (let flags0 = compile_options @ '' -flto'' in
      if use_OpenMP0 then
        (case openmp_block e flags0 of
           (use_OpenMP1, flags1, warns) \<Rightarrow>
             (let flags2 = (if platform_system e = ''Darwin''
                            then flags1 @ '' -undefined dynamic_lookup'' else flags1)
              in Inr (use_OpenMP1, flags2 @ '' -I'' @ bindings_source_dir e, warns)))
      else Inl (NameError ''platform''))"

section \<open>GPU capability (config.py, lines 105 to 153)\<close>

definition cuda_dependencies :: "string list" where
  "cuda_dependencies = [''cuda'', ''nvrtc'']"

text \<open>
  Modelled from the spec: \<^verbatim>\<open>keops.utils.gpu_utils.get_gpu_props\<close> is not among the
  sources. It reports the device count first and, as the comment at line 109 says, issues
  a warning of its own when cuda is not available.
\<close>

definition get_gpu_props :: "env \<Rightarrow> nat \<times> diagnostic list" where
  "get_gpu_props e =
     (gpu_device_count e, if gpu_device_count e = 0 then [Gpu_props_warning] else [])"

text \<open>Lines 107 to 115: \<open>cuda_available\<close> and the diagnostics of the probe.\<close>

definition probe :: "env \<Rightarrow> bool \<times> diagnostic list" where
  "probe e =
     (if list_all truthy (map (find_library e) cuda_dependencies) then
        (case get_gpu_props e of (n, warns) \<Rightarrow> (0 < n, warns))
      else
        (False,
         [KeOps_Warning ''Cuda libraries were not detected on the system ; using cpu only mode'']))"

text \<open>Lines 117 to 153: the mode that results, and the GPU settings.\<close>

definition configure_cuda :: "env \<Rightarrow> state \<Rightarrow> state" where
  "configure_cuda e s =
     (case probe e of
        (available, warns) \<Rightarrow>
          (let warns2 =
                 (if \<not> use_cuda s \<and> available then
                    [KeOps_Warning
                       ''Cuda appears to be available on your system, but use_cuda is set to False in config.py. Using cpu only mode'']
                  else []);
               use_cuda1 = (if use_cuda s \<and> \<not> available then False else use_cuda s);
               s1 = s\<lparr>cuda_available := available,
                      diagnostics := diagnostics s @ warns @ warns2,
                      use_cuda := use_cuda1\<rparr>
           in if use_cuda1 then
                s1\<lparr>cuda_version := Some (gpu_cuda_version e),
                   libcuda_folder := Some (gpu_libcuda_folder e),
                   libnvrtc_folder := Some (gpu_libnvrtc_folder e),
                   nvrtc_flags :=
                     Some (compile_options @ '' -fpermissive -L'' @ gpu_libcuda_folder e
                           @ '' -L'' @ gpu_libnvrtc_folder e @ '' -lcuda -lnvrtc''),
                   nvrtc_include :=
                     Some ('' -I'' @ bindings_source_dir e
                           @ (if truthy (gpu_cuda_include_path e)
                              then '' -I'' @ the (gpu_cuda_include_path e) else [])),
                   cuda_include_path := gpu_cuda_include_path e,
                   jit_source_file :=
                     Some (join (join (join (base_dir_path e) ''binders'') ''nvrtc'')
                             ''keops_nvrtc.cpp''),
                   jit_source_header :=
                     Some (join (join (join (base_dir_path e) ''binders'') ''nvrtc'')
                             ''keops_nvrtc.h'')\<rparr>
              else
                s1\<lparr>cuda_version := None,
                   libcuda_folder := None,
                   libnvrtc_folder := None,
                   nvrtc_flags := None,
                   nvrtc_include := None,
                   cuda_include_path := None,
                   jit_source_file := None,
                   jit_source_header := None,
                   jit_binary := None\<rparr>))"

section \<open>The import of the module\<close>

text \<open>
  The globals after lines 10 to 44, on the file system that the cache initialisation
  left. The names that are bound further down have no value yet; the fields hold
  \<open>None\<close>, the empty string or \<open>False\<close> until their line is reached. The registry
  starts with an empty map.
\<close>

definition globals_at_line_44 :: "bool \<Rightarrow> bool \<Rightarrow> filesystem \<Rightarrow> state" where
  "globals_at_line_44 use_cuda0 use_OpenMP0 fsys =
     \<lparr>fs = fsys, build_path = [], use_cuda = use_cuda0, use_OpenMP = use_OpenMP0,
      cpp_flags = [], cuda_available = False, cuda_version = None,
      libcuda_folder = None, libnvrtc_folder = None, nvrtc_flags = None,
      nvrtc_include = None, cuda_include_path = None, jit_source_file = None,
      jit_source_header = None, jit_binary = None, init_cudalibs_flag = False,
      loaded_libs = [], diagnostics = [], handles = Map.empty, save_folder = [],
      next_handle = 0, toolchain_log = []\<rparr>"

text \<open>
  Lines 10 to 102: the values given to \<open>use_cuda\<close> and \<open>use_OpenMP\<close> at lines 10
  and 11 and the file system found are the inputs. An error ends the import.
\<close>

definition import_to_line_102 :: "env \<Rightarrow> bool \<Rightarrow> bool \<Rightarrow> filesystem \<Rightarrow> error + state" where
  "import_to_line_102 e use_cuda0 use_OpenMP0 fs0 =
     (case init_cache e fs0 of
        Inl err \<Rightarrow> Inl err
      | Inr fs1 \<Rightarrow>
          (case set_build_folder e None True False (globals_at_line_44 use_cuda0 use_OpenMP0 fs1) of
             (Inl err, s1) \<Rightarrow> Inl err
           | (Inr u, s1) \<Rightarrow>
               (let s2 = s1\<lparr>jit_binary := Some (join (build_path s1) ''keops_nvrtc.so'')\<rparr> in
                case assemble_cpp_flags e (use_OpenMP s2) of
                  Inl err \<Rightarrow> Inl err
                | Inr (use_OpenMP1, flags, warns) \<Rightarrow>
                    Inr (s2\<lparr>use_OpenMP := use_OpenMP1, cpp_flags := flags,
                             diagnostics := diagnostics s2 @ warns\<rparr>))))"

text \<open>
  The whole module body: lines 105 to 155 follow. The registry, which is created after
  the configuration, saves to the build path.
\<close>

definition module_init :: "env \<Rightarrow> bool \<Rightarrow> bool \<Rightarrow> filesystem \<Rightarrow> error + state" where
  "module_init e use_cuda0 use_OpenMP0 fs0 =
     (case import_to_line_102 e use_cuda0 use_OpenMP0 fs0 of
        Inl err \<Rightarrow> Inl err
      | Inr s3 \<Rightarrow>
          (let s4 = configure_cuda e s3
           in Inr (s4\<lparr>init_cudalibs_flag := False, save_folder := build_path s4\<rparr>)))"

section \<open>Runs of the process\<close>

text \<open>
  What a client can call after the import, and the state each call leaves, whether it
  returned or raised.
\<close>

datatype operation =
    Set_build_folder "string option" bool bool
  | Init_cudalibs
  | Get_kernel string string string
  | Reset "string option"

fun step :: "env \<Rightarrow> operation \<Rightarrow> state \<Rightarrow> state" where
  "step e (Set_build_folder path read_save_file reset_all) s =
     snd (set_build_folder e path read_save_file reset_all s)"
| "step e Init_cudalibs s = snd (init_cudalibs e s)"
| "step e (Get_kernel sig source_text config) s = snd (get_kernel e sig source_text config s)"
| "step e (Reset new_save_folder) s = reset new_save_folder s"

fun run :: "env \<Rightarrow> operation list \<Rightarrow> state \<Rightarrow> state" where
  "run e [] s = s"
| "run e (op # ops) s = run e ops (step e op s)"

text \<open>The calls that empty the registry: a reset, direct or through \<open>reset_all\<close>.\<close>

fun resets :: "operation \<Rightarrow> bool" where
  "resets (Reset new_save_folder) = True"
| "resets (Set_build_folder path read_save_file reset_all) = reset_all"
| "resets op = False"

section \<open>Sample inputs\<close>

text \<open>
  A Linux machine with one GPU, and three file systems: one whose cache was stamped by
  version 1.0 and holds a build folder with one artifact, one whose cache folder has lost
  its stamp, and one without a cache folder.
\<close>

definition linux_gpu :: env where
  "linux_gpu =
     \<lparr>home = ''/h'', base_dir_path = ''/k'', version = ''1.1'',
      platform_system = ''Linux'', getenv = Map.empty,
      find_library = [''nvrtc'' \<mapsto> ''libnvrtc.so'', ''cuda'' \<mapsto> ''libcuda.so'',
                      ''cudart'' \<mapsto> ''libcudart.so''],
      dlopen_ok = (\<lambda>name. True), gpu_device_count = 1,
      gpu_libcuda_folder = ''/lib'', gpu_libnvrtc_folder = ''/lib'',
      gpu_cuda_include_path = Some ''/cuda/include'', gpu_cuda_version = 11,
      artifact_name = (\<lambda>sig. sig @ ''.so''),
      toolchain = (\<lambda>n source_text config. if source_text = [] then None else Some source_text),
      load_ok = (\<lambda>binary. True), jit_launcher_binary = ''jit''\<rparr>"

definition stale_fs :: filesystem where
  "stale_fs =
     map_of
       [(''/h'', Dir), (''/h/.cache'', Dir), (''/h/.cache/keops'', Dir),
        (''/h/.cache/keops/keops_version'', File ''1.0''),
        (''/h/.cache/keops/build'', Dir),
        (''/h/.cache/keops/build/k.so'', File ''old'')]"

definition unstamped_fs :: filesystem where
  "unstamped_fs = map_of [(''/h'', Dir), (''/h/.cache'', Dir), (''/h/.cache/keops'', Dir)]"

definition bare_fs :: filesystem where
  "bare_fs = map_of [(''/h'', Dir)]"

text \<open>
  A Mac without the opt-in variable and without the GPU libraries, a Mac that opted in,
  and the Linux machine with its GPU libraries but no device.
\<close>

definition mac_plain :: env where
  "mac_plain = linux_gpu\<lparr>platform_system := ''Darwin'', find_library := Map.empty\<rparr>"

definition mac_opted_in :: env where
  "mac_opted_in = mac_plain\<lparr>getenv := [''KMP_DUPLICATE_LIB_OK'' \<mapsto> ''TRUE'']\<rparr>"

definition linux_no_device :: env where
  "linux_no_device = linux_gpu\<lparr>gpu_device_count := 0\<rparr>"

text \<open>
  The Linux machine with its GPU, where the driver and the runtime compiler resolve by
  name and the execution runtime \<open>cudart\<close> does not.
\<close>

definition linux_no_cudart :: env where
  "linux_no_cudart =
     linux_gpu\<lparr>find_library := [''nvrtc'' \<mapsto> ''libnvrtc.so'', ''cuda'' \<mapsto> ''libcuda.so'']\<rparr>"

text \<open>
  A process on the Linux machine after the import, with the build folder in the cache
  folder and nothing loaded yet; and the same process with the kernel \<open>k\<close> loaded.
\<close>

definition running_fs :: filesystem where
  "running_fs =
     map_of
       [(''/h'', Dir), (''/h/.cache'', Dir), (''/h/.cache/keops'', Dir),
        (''/h/.cache/keops/keops_version'', File ''1.1''),
        (''/h/.cache/keops/build_folder_location.txt'', File ''/h/.cache/keops/build''),
        (''/h/.cache/keops/build'', Dir)]"

definition started :: state where
  "started =
     (globals_at_line_44 True True running_fs)
       \<lparr>build_path := ''/h/.cache/keops/build'',
        cpp_flags := '' -shared -fPIC -O3 -std=c++11 -flto -fopenmp -fno-fat-lto-objects -I/k'',
        cuda_available := True,
        jit_binary := Some ''/h/.cache/keops/build/keops_nvrtc.so'',
        save_folder := ''/h/.cache/keops/build''\<rparr>"

definition loaded :: state where
  "loaded =
     started
       \<lparr>fs := (fs started)(''/h/.cache/keops/build/k.so'' \<mapsto> File ''src''),
        handles := [''k'' \<mapsto> Handle 0 ''/h/.cache/keops/build/k.so''],
        next_handle := 1,
        toolchain_log := [''k'']\<rparr>"

section \<open>Facts about paths and the file system\<close>

lemma ancestors_from_append:
  "ancestors_from acc (xs @ ys) = ancestors_from acc xs @ ancestors_from (acc @ xs) ys"
  by (induction xs arbitrary: acc) simp_all

lemma ancestors_from_no_sep:
  "sep \<notin> set xs \<Longrightarrow> ancestors_from acc xs = []"
  by (induction xs arbitrary: acc) auto

lemma ancestors_from_length:
  "q \<in> set (ancestors_from acc xs) \<Longrightarrow> length acc \<le> length q \<and> length q < length acc + length xs"
  by (induction xs arbitrary: acc) (fastforce split: if_splits)+

lemma ancestors_shorter: "q \<in> set (ancestors p) \<Longrightarrow> length q < length p"
  using ancestors_from_length [of q "[]" p] by (simp add: ancestors_def)

lemma ancestors_join:
  assumes "a \<noteq> []" "last a \<noteq> sep" "sep \<notin> set b"
  shows "ancestors (join a b) = ancestors a @ [a]"
proof -
  have "join a b = a @ sep # b"
    using assms by (cases b) (auto simp: join_def)
  then show ?thesis
    using assms by (simp add: ancestors_def ancestors_from_append ancestors_from_no_sep)
qed

lemma join_last:
  "b \<noteq> [] \<Longrightarrow> hd b \<noteq> sep \<Longrightarrow> last (join a b) = last b \<and> join a b \<noteq> []"
  by (auto simp: join_def)

lemma cache_folder_shape:
  "keops_cache_folder e \<noteq> [] \<and> last (keops_cache_folder e) \<noteq> sep"
proof -
  have "last (join a ''keops'') = CHR ''s'' \<and> join a ''keops'' \<noteq> []" for a
    using join_last [of "''keops''" a] by (simp add: sep_def)
  then show ?thesis by (simp add: keops_cache_folder_def sep_def)
qed

lemma version_file_ancestors:
  "ancestors (version_cache_file e) = ancestors (keops_cache_folder e) @ [keops_cache_folder e]"
  unfolding version_cache_file_def
  using cache_folder_shape [of e] by (intro ancestors_join) (simp_all add: sep_def)

lemma mkdir_chain_result:
  "\<forall>q\<in>set qs. \<forall>c. fsys q \<noteq> Some (File c) \<Longrightarrow>
   mkdir_chain fsys qs = Inr (\<lambda>p. if p \<in> set qs then Some Dir else fsys p)"
proof (induction qs arbitrary: fsys)
  case Nil
  then show ?case by simp
next
  case (Cons q qs)
  show ?case
  proof (cases "fsys q")
    case None
    have "mkdir_chain (fsys(q \<mapsto> Dir)) qs = Inr (\<lambda>p. if p \<in> set qs then Some Dir else (fsys(q \<mapsto> Dir)) p)"
      by (rule Cons.IH) (use Cons.prems in auto)
    then show ?thesis using None by (auto intro!: ext)
  next
    case (Some n)
    then have n: "n = Dir" using Cons.prems by (cases n) auto
    have "mkdir_chain fsys qs = Inr (\<lambda>p. if p \<in> set qs then Some Dir else fsys p)"
      by (rule Cons.IH) (use Cons.prems in auto)
    then show ?thesis using Some n by (auto intro!: ext)
  qed
qed

lemma check_dirs_all_dirs:
  "\<forall>q\<in>set qs. fsys q = Some Dir \<Longrightarrow> check_dirs fsys qs = None"
  by (induction qs) auto


lemma universal_newlines_plain:
  "carriage_return \<notin> set cs \<Longrightarrow> universal_newlines cs = cs"
  by (induction cs rule: universal_newlines.induct) auto

lemma universal_newlines_crlf:
  "universal_newlines (''/h/b2'' @ [carriage_return, line_feed]) = ''/h/b2'' @ [line_feed]"
  by (simp add: carriage_return_def line_feed_def)

lemma resolves_when_present:
  "well_formed fsys \<Longrightarrow> fsys p \<noteq> None \<Longrightarrow> check_dirs fsys (ancestors p) = None"
  by (rule check_dirs_all_dirs) (auto simp: well_formed_def)

lemma version_file_resolves:
  assumes "well_formed fsys" and "fsys (keops_cache_folder e) = Some Dir"
  shows "check_dirs fsys (ancestors (version_cache_file e)) = None"
  using assms
  by (intro check_dirs_all_dirs) (auto simp: version_file_ancestors well_formed_def)

lemma ancestors_not_below:
  "q \<in> set (ancestors p) \<Longrightarrow> \<not> below p q \<and> q \<noteq> p"
  using ancestors_shorter [of q p] ancestors_shorter [of p q] by (auto simp: below_def)

lemma version_file_below: "below (keops_cache_folder e) (version_cache_file e)"
  by (simp add: below_def version_file_ancestors)

lemma version_file_neq: "version_cache_file e \<noteq> keops_cache_folder e"
  using ancestors_not_below [of "keops_cache_folder e" "version_cache_file e"] version_file_below [of e]
  by (auto simp: below_def)

lemma version_file_nonempty: "version_cache_file e \<noteq> []"
  using ancestors_shorter [of "keops_cache_folder e" "version_cache_file e"] version_file_below [of e]
  by (auto simp: below_def)

lemma stamp_cache_result:
  assumes root: "fsys (keops_cache_folder e) = None"
    and anc: "\<forall>q\<in>set (ancestors (keops_cache_folder e)). \<forall>c. fsys q \<noteq> Some (File c)"
    and vf: "fsys (version_cache_file e) = None"
  shows "stamp_cache e fsys =
           Inr ((\<lambda>p. if p \<in> set (ancestors (keops_cache_folder e)) then Some Dir else fsys p)
                  (keops_cache_folder e \<mapsto> Dir, version_cache_file e \<mapsto> File (version e)))"
proof -
  let ?root = "keops_cache_folder e" and ?vf = "version_cache_file e"
  let ?fs1 = "\<lambda>p. if p \<in> set (ancestors ?root) then Some Dir else fsys p"
  have chain: "mkdir_chain fsys (ancestors ?root) = Inr ?fs1"
    using anc by (rule mkdir_chain_result)
  have r1: "?fs1 ?root = None"
    using root ancestors_not_below [of ?root ?root] by auto
  have mk: "makedirs fsys ?root False = Inr (?fs1(?root \<mapsto> Dir))"
    using chain r1 cache_folder_shape [of e] by (simp add: makedirs_def)
  have dirs: "check_dirs (?fs1(?root \<mapsto> Dir)) (ancestors ?vf) = None"
    by (rule check_dirs_all_dirs) (auto simp: version_file_ancestors)
  have "?vf \<notin> set (ancestors ?root)"
    using ancestors_not_below [of ?vf ?root] version_file_below [of e] by auto
  then have v1: "(?fs1(?root \<mapsto> Dir)) ?vf = None"
    using vf version_file_neq [of e] by simp
  have "write_file (?fs1(?root \<mapsto> Dir)) ?vf (version e)
          = Inr (?fs1(?root \<mapsto> Dir, ?vf \<mapsto> File (version e)))"
    using dirs v1 version_file_nonempty [of e] by (simp add: write_file_def)
  then show ?thesis using mk by (simp add: stamp_cache_def)
qed

lemma well_formed_map_of:
  assumes "list_all (\<lambda>(p, n). list_all (\<lambda>q. map_of xs q = Some Dir) (ancestors p)) xs"
  shows "well_formed (map_of xs)"
  unfolding well_formed_def
proof (intro allI impI)
  fix p q
  assume "map_of xs p \<noteq> None" and q: "q \<in> set (ancestors p)"
  then obtain n where "(p, n) \<in> set xs" by (auto dest: map_of_SomeD)
  with assms have "list_all (\<lambda>q. map_of xs q = Some Dir) (ancestors p)"
    by (auto simp: list_all_iff)
  with q show "map_of xs q = Some Dir" by (simp add: list_all_iff)
qed

lemma wf_stale: "well_formed stale_fs"
  unfolding stale_fs_def
  by (rule well_formed_map_of) (simp add: ancestors_def sep_def)

lemma wf_unstamped: "well_formed unstamped_fs"
  unfolding unstamped_fs_def
  by (rule well_formed_map_of) (simp add: ancestors_def sep_def)

lemma wf_bare: "well_formed bare_fs"
  unfolding bare_fs_def
  by (rule well_formed_map_of) (simp add: ancestors_def sep_def)


lemma paths_linux:
  "keops_cache_folder linux_gpu = ''/h/.cache/keops''"
  "version_cache_file linux_gpu = ''/h/.cache/keops/keops_version''"
  "version linux_gpu = ''1.1''"
  by (simp_all add: keops_cache_folder_def version_cache_file_def join_def linux_gpu_def sep_def)

section \<open>The cache folder at start-up\<close>

text \<open>
  C2. On a well-formed file system: if the cache folder is a directory whose stamp, read
  as the code reads it (the text of the stamp file, in text mode, without trailing white
  space), differs
  from the running version, the import removes the folder with everything below it and
  creates it again with nothing in it but a stamp file that holds exactly the running
  version; everything outside the folder is untouched. If the cache folder does not exist
  (and no file stands where one of its parent directories should be), it is created with
  the stamp of the running version, and nothing but the folder, its missing parents and
  the stamp changes. A cache folder whose stamp is the running version is left as it is.
\<close>

theorem cache_init_version_drift:
  assumes wf: "well_formed fsys"
  shows "(fsys (keops_cache_folder e) = Some Dir
            \<and> fsys (version_cache_file e) = Some (File text)
            \<and> rstrip (universal_newlines text) \<noteq> version e \<longrightarrow>
          (\<exists>fs'. init_cache e fsys = Inr fs'
             \<and> fs' (keops_cache_folder e) = Some Dir
             \<and> fs' (version_cache_file e) = Some (File (version e))
             \<and> (\<forall>p. below (keops_cache_folder e) p \<and> p \<noteq> version_cache_file e
                    \<longrightarrow> fs' p = None)
             \<and> (\<forall>p. \<not> below (keops_cache_folder e) p \<and> p \<noteq> keops_cache_folder e
                    \<longrightarrow> fs' p = fsys p)))
       \<and> (fsys (keops_cache_folder e) = None
            \<and> (\<forall>q\<in>set (ancestors (keops_cache_folder e)). \<forall>c. fsys q \<noteq> Some (File c)) \<longrightarrow>
          (\<exists>fs'. init_cache e fsys = Inr fs'
             \<and> fs' (keops_cache_folder e) = Some Dir
             \<and> fs' (version_cache_file e) = Some (File (version e))
             \<and> (\<forall>p. p \<notin> set (ancestors (version_cache_file e)) \<and> p \<noteq> version_cache_file e
                    \<longrightarrow> fs' p = fsys p)))
       \<and> (fsys (keops_cache_folder e) = Some Dir
            \<and> fsys (version_cache_file e) = Some (File text)
            \<and> rstrip (universal_newlines text) = version e \<longrightarrow>
          init_cache e fsys = Inr fsys)"
proof (intro conjI impI)
  let ?root = "keops_cache_folder e" and ?vf = "version_cache_file e"
  assume a: "fsys ?root = Some Dir \<and> fsys ?vf = Some (File text)
             \<and> rstrip (universal_newlines text) \<noteq> version e"
  let ?fs0 = "\<lambda>q. if q = ?root \<or> below ?root q then None else fsys q"
  let ?fs1 = "(\<lambda>p. if p \<in> set (ancestors ?root) then Some Dir else ?fs0 p)
                (?root \<mapsto> Dir, ?vf \<mapsto> File (version e))"
  have chk: "check_cache e fsys = Inr (True, ?fs0)"
    using a version_file_resolves [OF wf, of e]
    by (simp add: check_cache_def exists_def read_file_def rmtree_def)
  have anc: "\<forall>q\<in>set (ancestors ?root). ?fs0 q = Some Dir"
    using wf a ancestors_not_below [of _ ?root] by (auto simp: well_formed_def)
  have "stamp_cache e ?fs0 = Inr ?fs1"
    by (rule stamp_cache_result) (use anc version_file_below [of e] in auto)
  then have res: "init_cache e fsys = Inr ?fs1"
    using chk by (simp add: init_cache_def)
  have p1: "?fs1 ?root = Some Dir"
    using version_file_neq [of e] by simp
  have p2: "?fs1 ?vf = Some (File (version e))" by simp
  have p3: "\<forall>p. below ?root p \<and> p \<noteq> ?vf \<longrightarrow> ?fs1 p = None"
    using ancestors_not_below [of _ ?root] by (auto simp: below_def)
  have p4: "\<forall>p. \<not> below ?root p \<and> p \<noteq> ?root \<longrightarrow> ?fs1 p = fsys p"
    using anc version_file_below [of e] ancestors_not_below [of _ ?root] by auto
  show "\<exists>fs'. init_cache e fsys = Inr fs'
             \<and> fs' ?root = Some Dir
             \<and> fs' ?vf = Some (File (version e))
             \<and> (\<forall>p. below ?root p \<and> p \<noteq> ?vf \<longrightarrow> fs' p = None)
             \<and> (\<forall>p. \<not> below ?root p \<and> p \<noteq> ?root \<longrightarrow> fs' p = fsys p)"
    using res p1 p2 p3 p4 by blast
next
  let ?root = "keops_cache_folder e" and ?vf = "version_cache_file e"
  assume a: "fsys ?root = None \<and> (\<forall>q\<in>set (ancestors ?root). \<forall>c. fsys q \<noteq> Some (File c))"
  let ?fs1 = "(\<lambda>p. if p \<in> set (ancestors ?root) then Some Dir else fsys p)
                (?root \<mapsto> Dir, ?vf \<mapsto> File (version e))"
  have vf: "fsys ?vf = None"
  proof (rule ccontr)
    assume "fsys ?vf \<noteq> None"
    then have "fsys ?root = Some Dir"
      using wf version_file_below [of e] by (auto simp: well_formed_def below_def)
    then show False using a by simp
  qed
  have chk: "check_cache e fsys = Inr (True, fsys)"
    using a by (simp add: check_cache_def exists_def)
  have "stamp_cache e fsys = Inr ?fs1"
    by (rule stamp_cache_result) (use a vf in auto)
  then have res: "init_cache e fsys = Inr ?fs1"
    using chk by (simp add: init_cache_def)
  have p1: "?fs1 ?root = Some Dir"
    using version_file_neq [of e] by simp
  have p2: "?fs1 ?vf = Some (File (version e))" by simp
  have p4: "\<forall>p. p \<notin> set (ancestors ?vf) \<and> p \<noteq> ?vf \<longrightarrow> ?fs1 p = fsys p"
    by (auto simp: version_file_ancestors)
  show "\<exists>fs'. init_cache e fsys = Inr fs'
             \<and> fs' ?root = Some Dir
             \<and> fs' ?vf = Some (File (version e))
             \<and> (\<forall>p. p \<notin> set (ancestors ?vf) \<and> p \<noteq> ?vf \<longrightarrow> fs' p = fsys p)"
    using res p1 p2 p4 by blast
next
  let ?root = "keops_cache_folder e" and ?vf = "version_cache_file e"
  assume a: "fsys ?root = Some Dir \<and> fsys ?vf = Some (File text)
             \<and> rstrip (universal_newlines text) = version e"
  then have "check_cache e fsys = Inr (False, fsys)"
    using version_file_resolves [OF wf, of e]
    by (simp add: check_cache_def exists_def read_file_def)
  then show "init_cache e fsys = Inr fsys"
    by (simp add: init_cache_def)
qed

theorem cache_init_version_drift_witness:
  "well_formed stale_fs \<and> stale_fs ''/h/.cache/keops'' = Some Dir
   \<and> stale_fs ''/h/.cache/keops/keops_version'' = Some (File ''1.0'')
   \<and> rstrip (universal_newlines ''1.0'') \<noteq> ''1.1''
   \<and> (\<exists>fs'. init_cache linux_gpu stale_fs = Inr fs'
         \<and> fs' ''/h/.cache/keops'' = Some Dir
         \<and> fs' ''/h/.cache/keops/keops_version'' = Some (File ''1.1'')
         \<and> fs' ''/h/.cache/keops/build'' = None
         \<and> fs' ''/h/.cache/keops/build/k.so'' = None
         \<and> fs' ''/h'' = Some Dir)
   \<and> well_formed bare_fs \<and> bare_fs ''/h/.cache/keops'' = None
   \<and> (\<exists>fs'. init_cache linux_gpu bare_fs = Inr fs'
         \<and> fs' ''/h/.cache/keops'' = Some Dir
         \<and> fs' ''/h/.cache/keops/keops_version'' = Some (File ''1.1''))"
proof -
  have h1: "stale_fs ''/h/.cache/keops'' = Some Dir
            \<and> stale_fs ''/h/.cache/keops/keops_version'' = Some (File ''1.0'')
            \<and> rstrip (universal_newlines ''1.0'') \<noteq> ''1.1''"
    by (simp add: stale_fs_def rstrip_def isspace_def carriage_return_def)
  have h2: "bare_fs ''/h/.cache/keops'' = None
            \<and> (\<forall>q\<in>set (ancestors ''/h/.cache/keops''). \<forall>c. bare_fs q \<noteq> Some (File c))"
    by (simp add: bare_fs_def ancestors_def sep_def)
  have b1: "below ''/h/.cache/keops'' ''/h/.cache/keops/build''
              \<and> ''/h/.cache/keops/build'' \<noteq> ''/h/.cache/keops/keops_version''"
    and b2: "below ''/h/.cache/keops'' ''/h/.cache/keops/build/k.so''
              \<and> ''/h/.cache/keops/build/k.so'' \<noteq> ''/h/.cache/keops/keops_version''"
    and b3: "\<not> below ''/h/.cache/keops'' ''/h'' \<and> ''/h'' \<noteq> ''/h/.cache/keops''"
    by (simp_all add: below_def ancestors_def sep_def)
  have top: "stale_fs ''/h'' = Some Dir" by (simp add: stale_fs_def)
  note drift = cache_init_version_drift [OF wf_stale, of linux_gpu "''1.0''", unfolded paths_linux]
  from drift [THEN conjunct1, rule_format, OF h1]
  obtain fs1 where f1: "init_cache linux_gpu stale_fs = Inr fs1"
      "fs1 ''/h/.cache/keops'' = Some Dir"
      "fs1 ''/h/.cache/keops/keops_version'' = Some (File ''1.1'')"
      "\<forall>p. below ''/h/.cache/keops'' p \<and> p \<noteq> ''/h/.cache/keops/keops_version'' \<longrightarrow> fs1 p = None"
      "\<forall>p. \<not> below ''/h/.cache/keops'' p \<and> p \<noteq> ''/h/.cache/keops'' \<longrightarrow> fs1 p = stale_fs p"
    by blast
  have g1: "fs1 ''/h/.cache/keops/build'' = None" using f1(4) b1 by blast
  have g2: "fs1 ''/h/.cache/keops/build/k.so'' = None" using f1(4) b2 by blast
  have g3: "fs1 ''/h'' = Some Dir" using f1(5) b3 top by metis
  note fresh = cache_init_version_drift [OF wf_bare, of linux_gpu, unfolded paths_linux]
  from fresh [THEN conjunct2, THEN conjunct1, rule_format, OF h2]
  obtain fs2 where f2: "init_cache linux_gpu bare_fs = Inr fs2"
      "fs2 ''/h/.cache/keops'' = Some Dir"
      "fs2 ''/h/.cache/keops/keops_version'' = Some (File ''1.1'')"
    by blast
  show ?thesis
    using wf_stale wf_bare h1 h2 f1(1,2,3) g1 g2 g3 f2 by blast
qed

text \<open>
  C10. If the cache folder is a directory (of a well-formed file system) and the stamp
  file in it does not exist, the stamp file is opened for reading all the same: the cache initialisation, and with it the import of the
  module, ends with \<^verbatim>\<open>FileNotFoundError\<close> for the stamp file. Nothing is removed or
  created.
\<close>

theorem missing_stamp_raises:
  assumes "well_formed fsys" and "fsys (keops_cache_folder e) = Some Dir"
    and "fsys (version_cache_file e) = None"
  shows "init_cache e fsys = Inl (FileNotFoundError (version_cache_file e))
         \<and> module_init e use_cuda0 use_OpenMP0 fsys = Inl (FileNotFoundError (version_cache_file e))"
proof -
  have "read_file fsys (version_cache_file e) = Inl (FileNotFoundError (version_cache_file e))"
    using assms(3) version_file_resolves [OF assms(1,2)] by (simp add: read_file_def)
  then have "check_cache e fsys = Inl (FileNotFoundError (version_cache_file e))"
    using assms(2) by (simp add: check_cache_def exists_def)
  then show ?thesis
    by (simp add: module_init_def import_to_line_102_def init_cache_def)
qed

theorem missing_stamp_raises_witness:
  "well_formed unstamped_fs
   \<and> unstamped_fs ''/h/.cache/keops'' = Some Dir
   \<and> unstamped_fs ''/h/.cache/keops/keops_version'' = None
   \<and> init_cache linux_gpu unstamped_fs = Inl (FileNotFoundError ''/h/.cache/keops/keops_version'')
   \<and> module_init linux_gpu True True unstamped_fs
        = Inl (FileNotFoundError ''/h/.cache/keops/keops_version'')"
proof -
  have h: "well_formed unstamped_fs"
          "unstamped_fs (keops_cache_folder linux_gpu) = Some Dir"
          "unstamped_fs (version_cache_file linux_gpu) = None"
    using wf_unstamped by (simp_all add: paths_linux unstamped_fs_def)
  show ?thesis
    using h missing_stamp_raises [OF h, of True True] by (simp add: paths_linux)
qed

section \<open>The compiler flags\<close>

text \<open>
  C6. With \<open>use_OpenMP\<close> set (line 11), the flag assembly returns without an error.
  On Darwin without \<^verbatim>\<open>KMP_DUPLICATE_LIB_OK\<close> equal to \<^verbatim>\<open>TRUE\<close>, \<open>use_OpenMP\<close> becomes
  false, the flags are the base options, \<^verbatim>\<open>-flto\<close>, the Darwin flag and the include
  path, with no OpenMP flag among them, and the one warning is issued. In every other
  case \<open>use_OpenMP\<close> stays true, no warning is issued, and the OpenMP flags of the
  platform follow \<^verbatim>\<open>-flto\<close>.
\<close>

theorem openmp_gate:
  assumes "use_OpenMP0"
  shows "assemble_cpp_flags e use_OpenMP0 =
           Inr (if platform_system e = ''Darwin''
                   \<and> getenv e ''KMP_DUPLICATE_LIB_OK'' \<noteq> Some ''TRUE''
                then (False,
                      compile_options @ '' -flto'' @ '' -undefined dynamic_lookup''
                        @ '' -I'' @ bindings_source_dir e,
                      [KeOps_Warning
                         ''OpenMP support is disabled on Mac by default, see the doc for enabling it.''])
                else (True,
                      compile_options @ '' -flto''
                        @ (if platform_system e = ''Darwin''
                           then '' -Xclang -fopenmp -lomp '' @ '' -undefined dynamic_lookup''
                           else '' -fopenmp -fno-fat-lto-objects'')
                        @ '' -I'' @ bindings_source_dir e,
                      []))"
  using assms by (simp add: assemble_cpp_flags_def openmp_block_def)

theorem openmp_gate_witness:
  "assemble_cpp_flags mac_plain True =
     Inr (False, '' -shared -fPIC -O3 -std=c++11 -flto -undefined dynamic_lookup -I/k'',
          [KeOps_Warning ''OpenMP support is disabled on Mac by default, see the doc for enabling it.''])
   \<and> assemble_cpp_flags mac_opted_in True =
     Inr (True, '' -shared -fPIC -O3 -std=c++11 -flto -Xclang -fopenmp -lomp  -undefined dynamic_lookup -I/k'', [])
   \<and> assemble_cpp_flags linux_gpu True =
     Inr (True, '' -shared -fPIC -O3 -std=c++11 -flto -fopenmp -fno-fat-lto-objects -I/k'', [])"
  using openmp_gate [of True mac_plain] openmp_gate [of True mac_opted_in]
    openmp_gate [of True linux_gpu]
  by (simp add: mac_plain_def mac_opted_in_def linux_gpu_def bindings_source_dir_def compile_options_def)

text \<open>
  C7, as stated, fails: on a Mac the flag string ends with the include path, not with the
  platform-specific flag \<^verbatim>\<open>-undefined dynamic_lookup\<close>, and \<^verbatim>\<open>-flto\<close> stands near
  the front.
\<close>

theorem link_flags_not_last:
  "assemble_cpp_flags mac_plain True =
     Inr (False, '' -shared -fPIC -O3 -std=c++11 -flto -undefined dynamic_lookup -I/k'',
          [KeOps_Warning ''OpenMP support is disabled on Mac by default, see the doc for enabling it.''])
   \<and> \<not> suffix '' -undefined dynamic_lookup''
         '' -shared -fPIC -O3 -std=c++11 -flto -undefined dynamic_lookup -I/k''
   \<and> \<not> suffix '' -flto''
         '' -shared -fPIC -O3 -std=c++11 -flto -undefined dynamic_lookup -I/k''"
  by (simp add: assemble_cpp_flags_def openmp_block_def compile_options_def mac_plain_def
        linux_gpu_def bindings_source_dir_def suffix_to_prefix)

text \<open>
  C7, amended. The flag string is made of five groups in this order: the base options,
  \<^verbatim>\<open>-flto\<close>, the OpenMP flags (none when OpenMP is switched off), the platform-specific
  flag \<^verbatim>\<open>-undefined dynamic_lookup\<close> (Darwin only), and the include path of the
  bindings. The include path is the group appended last; the platform-specific flag
  stands directly before it.
\<close>

theorem include_flag_last:
  assumes "use_OpenMP0"
  shows "\<exists>use_OpenMP1 omp warns.
           assemble_cpp_flags e use_OpenMP0 =
             Inr (use_OpenMP1,
                  compile_options @ '' -flto'' @ omp
                    @ (if platform_system e = ''Darwin'' then '' -undefined dynamic_lookup'' else [])
                    @ '' -I'' @ bindings_source_dir e,
                  warns)
           \<and> omp \<in> {[], '' -Xclang -fopenmp -lomp '', '' -fopenmp -fno-fat-lto-objects''}"
proof (cases "platform_system e = ''Darwin''")
  case True
  show ?thesis
  proof (cases "getenv e ''KMP_DUPLICATE_LIB_OK'' = Some ''TRUE''")
    case optin: True
    show ?thesis
      apply (rule exI [of _ True], rule exI [of _ "'' -Xclang -fopenmp -lomp ''"], rule exI [of _ "[]"])
      using assms True optin by (simp add: assemble_cpp_flags_def openmp_block_def)
  next
    case optout: False
    show ?thesis
      apply (rule exI [of _ False], rule exI [of _ "[]"],
          rule exI [of _ "[KeOps_Warning
             ''OpenMP support is disabled on Mac by default, see the doc for enabling it.'']"])
      using assms True optout by (simp add: assemble_cpp_flags_def openmp_block_def)
  qed
next
  case False
  show ?thesis
    apply (rule exI [of _ True], rule exI [of _ "'' -fopenmp -fno-fat-lto-objects''"], rule exI [of _ "[]"])
    using assms False by (simp add: assemble_cpp_flags_def openmp_block_def)
qed

theorem include_flag_last_witness:
  "\<exists>use_OpenMP1 omp warns.
     assemble_cpp_flags mac_opted_in True =
       Inr (use_OpenMP1,
            '' -shared -fPIC -O3 -std=c++11'' @ '' -flto'' @ omp
              @ '' -undefined dynamic_lookup'' @ '' -I'' @ ''/k'', warns)
     \<and> omp \<in> {[], '' -Xclang -fopenmp -lomp '', '' -fopenmp -fno-fat-lto-objects''}"
  using include_flag_last [of True mac_opted_in]
  by (simp add: mac_opted_in_def mac_plain_def linux_gpu_def bindings_source_dir_def
        compile_options_def)

section \<open>The GPU capability\<close>

lemma probe_unavailable:
  assumes "\<not> truthy (find_library e ''cuda'') \<or> \<not> truthy (find_library e ''nvrtc'')
           \<or> gpu_device_count e = 0"
  shows "probe e =
           (False,
            [if truthy (find_library e ''cuda'') \<and> truthy (find_library e ''nvrtc'')
             then Gpu_props_warning
             else KeOps_Warning
                    ''Cuda libraries were not detected on the system ; using cpu only mode''])"
  using assms by (auto simp: probe_def cuda_dependencies_def get_gpu_props_def)

text \<open>The definitions that a run on a sample input unfolds.\<close>

lemmas eval_defs =
  import_to_line_102_def init_cache_def check_cache_def stamp_cache_def
  set_build_folder_def choose_path_def globals_at_line_44_def
  assemble_cpp_flags_def openmp_block_def compile_options_def
  makedirs_def write_file_def read_file_def carriage_return_def line_feed_def rmtree_def
  exists_def isfile_def truthy_def
  keops_cache_folder_def version_cache_file_def save_file_def default_build_path_def
  bindings_source_dir_def join_def ancestors_def sep_def rstrip_def isspace_def below_def

lemma import_mac:
  "\<exists>s3. import_to_line_102 mac_plain True True bare_fs = Inr s3
     \<and> diagnostics s3 =
         [KeOps_Warning ''OpenMP support is disabled on Mac by default, see the doc for enabling it.'']
     \<and> cpp_flags s3 = '' -shared -fPIC -O3 -std=c++11 -flto -undefined dynamic_lookup -I/k''"
  by (simp add: eval_defs mac_plain_def linux_gpu_def bare_fs_def)

lemma import_no_device:
  "\<exists>s3. import_to_line_102 linux_no_device True True bare_fs = Inr s3
     \<and> diagnostics s3 = []
     \<and> cpp_flags s3 = '' -shared -fPIC -O3 -std=c++11 -flto -fopenmp -fno-fat-lto-objects -I/k''"
  by (simp add: eval_defs linux_no_device_def linux_gpu_def bare_fs_def)

text \<open>
  C5. GPU mode is requested (\<open>use_cuda\<close> is true at line 10) and the import has come
  to line 102. If one of the two libraries does not resolve by name, or the device count
  is zero, the import completes without an error: \<open>use_cuda\<close> is false, every GPU
  setting is \<open>None\<close>, the CPU flags are the ones assembled before, and exactly one
  diagnostic is added (the warning of line 113 when a library is missing, the warning of
  \<open>get_gpu_props\<close> when there is no device).
\<close>

theorem gpu_unavailable_downgrade:
  assumes before: "import_to_line_102 e True use_OpenMP0 fs0 = Inr s3"
    and unavailable:
      "\<not> truthy (find_library e ''cuda'') \<or> \<not> truthy (find_library e ''nvrtc'')
       \<or> gpu_device_count e = 0"
  shows "\<exists>s. module_init e True use_OpenMP0 fs0 = Inr s
           \<and> \<not> use_cuda s \<and> \<not> cuda_available s
           \<and> cuda_version s = None \<and> libcuda_folder s = None \<and> libnvrtc_folder s = None
           \<and> nvrtc_flags s = None \<and> nvrtc_include s = None \<and> cuda_include_path s = None
           \<and> jit_source_file s = None \<and> jit_source_header s = None \<and> jit_binary s = None
           \<and> cpp_flags s = cpp_flags s3 \<and> use_OpenMP s = use_OpenMP s3
           \<and> diagnostics s = diagnostics s3 @
                [if truthy (find_library e ''cuda'') \<and> truthy (find_library e ''nvrtc'')
                 then Gpu_props_warning
                 else KeOps_Warning
                        ''Cuda libraries were not detected on the system ; using cpu only mode'']"
  using before probe_unavailable [OF unavailable]
  by (simp add: module_init_def configure_cuda_def Let_def)

theorem gpu_unavailable_downgrade_witness:
  "(\<exists>s3. import_to_line_102 mac_plain True True bare_fs = Inr s3)
   \<and> \<not> truthy (find_library mac_plain ''cuda'')
   \<and> (\<exists>s. module_init mac_plain True True bare_fs = Inr s
          \<and> \<not> use_cuda s \<and> nvrtc_flags s = None \<and> jit_binary s = None
          \<and> cpp_flags s = '' -shared -fPIC -O3 -std=c++11 -flto -undefined dynamic_lookup -I/k''
          \<and> diagnostics s =
              [KeOps_Warning ''OpenMP support is disabled on Mac by default, see the doc for enabling it.'',
               KeOps_Warning ''Cuda libraries were not detected on the system ; using cpu only mode''])
   \<and> (\<exists>s3. import_to_line_102 linux_no_device True True bare_fs = Inr s3)
   \<and> gpu_device_count linux_no_device = 0
   \<and> (\<exists>s. module_init linux_no_device True True bare_fs = Inr s
          \<and> \<not> use_cuda s \<and> nvrtc_flags s = None \<and> jit_binary s = None
          \<and> diagnostics s = [Gpu_props_warning])"
proof -
  obtain s3 where s3: "import_to_line_102 mac_plain True True bare_fs = Inr s3"
      "diagnostics s3 =
         [KeOps_Warning ''OpenMP support is disabled on Mac by default, see the doc for enabling it.'']"
      "cpp_flags s3 = '' -shared -fPIC -O3 -std=c++11 -flto -undefined dynamic_lookup -I/k''"
    using import_mac by blast
  have u: "\<not> truthy (find_library mac_plain ''cuda'')"
    by (simp add: truthy_def mac_plain_def)
  obtain t3 where t3: "import_to_line_102 linux_no_device True True bare_fs = Inr t3"
      "diagnostics t3 = []"
    using import_no_device by blast
  have v: "gpu_device_count linux_no_device = 0"
      "truthy (find_library linux_no_device ''cuda'')"
      "truthy (find_library linux_no_device ''nvrtc'')"
    by (simp_all add: truthy_def linux_no_device_def linux_gpu_def)
  have a: "\<exists>s. module_init mac_plain True True bare_fs = Inr s
          \<and> \<not> use_cuda s \<and> nvrtc_flags s = None \<and> jit_binary s = None
          \<and> cpp_flags s = '' -shared -fPIC -O3 -std=c++11 -flto -undefined dynamic_lookup -I/k''
          \<and> diagnostics s =
              [KeOps_Warning ''OpenMP support is disabled on Mac by default, see the doc for enabling it.'',
               KeOps_Warning ''Cuda libraries were not detected on the system ; using cpu only mode'']"
    using gpu_unavailable_downgrade [OF s3(1)] u s3(2,3) by auto
  have b: "\<exists>s. module_init linux_no_device True True bare_fs = Inr s
          \<and> \<not> use_cuda s \<and> nvrtc_flags s = None \<and> jit_binary s = None
          \<and> diagnostics s = [Gpu_props_warning]"
    using gpu_unavailable_downgrade [OF t3(1)] v t3(2) by auto
  show ?thesis using s3(1) t3(1) u v(1) a b by blast
qed

section \<open>What each call leaves alone\<close>

lemma cdll_global_frame:
  "cdll_global e name s = (r, s') \<Longrightarrow>
   s'\<lparr>loaded_libs := loaded_libs s\<rparr> = s"
  by (auto simp: cdll_global_def split: if_splits)

lemma init_cudalibs_frame:
  "init_cudalibs e s = (r, s') \<Longrightarrow>
   s'\<lparr>loaded_libs := loaded_libs s, init_cudalibs_flag := init_cudalibs_flag s\<rparr> = s
   \<and> (init_cudalibs_flag s \<longrightarrow> init_cudalibs_flag s')"
  by (auto simp: init_cudalibs_def cdll_global_def split: if_splits)

lemma set_build_folder_frame:
  "set_build_folder e path rsf ra s = (r, s') \<Longrightarrow>
   s'\<lparr>fs := fs s, build_path := build_path s, handles := handles s,
      save_folder := save_folder s\<rparr> = s"
  by (auto simp: set_build_folder_def reset_and_provision_def compile_jit_compile_dll_def
        reset_def Let_def split: sum.splits if_splits)

lemma get_kernel_frame:
  "get_kernel e sig src cfg s = (r, s') \<Longrightarrow>
   s'\<lparr>fs := fs s, handles := handles s, next_handle := next_handle s,
      toolchain_log := toolchain_log s, loaded_libs := loaded_libs s,
      init_cudalibs_flag := init_cudalibs_flag s\<rparr> = s
   \<and> (init_cudalibs_flag s \<longrightarrow> init_cudalibs_flag s')"
  by (auto simp: get_kernel_def ensure_artifact_def load_artifact_def init_cudalibs_def
        cdll_global_def Let_def split: sum.splits if_splits option.splits node.splits prod.splits)

lemma set_build_folder_keeps:
  assumes "set_build_folder e path rsf ra s = (r, s')"
  shows "init_cudalibs_flag s' = init_cudalibs_flag s" and "jit_binary s' = jit_binary s"
    and "use_cuda s' = use_cuda s" and "toolchain_log s' = toolchain_log s"
    and "loaded_libs s' = loaded_libs s" and "next_handle s' = next_handle s"
proof -
  let ?t = "s'\<lparr>fs := fs s, build_path := build_path s, handles := handles s,
      save_folder := save_folder s\<rparr>"
  have eq: "?t = s" by (rule set_build_folder_frame [OF assms])
  have "init_cudalibs_flag ?t = init_cudalibs_flag s" by (simp only: eq)
  then show "init_cudalibs_flag s' = init_cudalibs_flag s" by simp
  have "jit_binary ?t = jit_binary s" by (simp only: eq)
  then show "jit_binary s' = jit_binary s" by simp
  have "use_cuda ?t = use_cuda s" by (simp only: eq)
  then show "use_cuda s' = use_cuda s" by simp
  have "toolchain_log ?t = toolchain_log s" by (simp only: eq)
  then show "toolchain_log s' = toolchain_log s" by simp
  have "loaded_libs ?t = loaded_libs s" by (simp only: eq)
  then show "loaded_libs s' = loaded_libs s" by simp
  have "next_handle ?t = next_handle s" by (simp only: eq)
  then show "next_handle s' = next_handle s" by simp
qed

lemma get_kernel_keeps:
  assumes "get_kernel e sig src cfg s = (r, s')"
  shows "jit_binary s' = jit_binary s" and "build_path s' = build_path s"
    and "use_cuda s' = use_cuda s" and "save_folder s' = save_folder s"
    and "init_cudalibs_flag s \<Longrightarrow> init_cudalibs_flag s'"
proof -
  let ?t = "s'\<lparr>fs := fs s, handles := handles s, next_handle := next_handle s,
      toolchain_log := toolchain_log s, loaded_libs := loaded_libs s,
      init_cudalibs_flag := init_cudalibs_flag s\<rparr>"
  have eq: "?t = s" using get_kernel_frame [OF assms] by simp
  have "jit_binary ?t = jit_binary s" by (simp only: eq)
  then show "jit_binary s' = jit_binary s" by simp
  have "build_path ?t = build_path s" by (simp only: eq)
  then show "build_path s' = build_path s" by simp
  have "use_cuda ?t = use_cuda s" by (simp only: eq)
  then show "use_cuda s' = use_cuda s" by simp
  have "save_folder ?t = save_folder s" by (simp only: eq)
  then show "save_folder s' = save_folder s" by simp
  show "init_cudalibs_flag s \<Longrightarrow> init_cudalibs_flag s'"
    using get_kernel_frame [OF assms] by simp
qed

lemma init_cudalibs_keeps:
  assumes "init_cudalibs e s = (r, s')"
  shows "jit_binary s' = jit_binary s" and "handles s' = handles s"
    and "toolchain_log s' = toolchain_log s" and "fs s' = fs s"
    and "save_folder s' = save_folder s" and "use_cuda s' = use_cuda s"
    and "next_handle s' = next_handle s"
    and "init_cudalibs_flag s \<Longrightarrow> init_cudalibs_flag s'"
proof -
  let ?t = "s'\<lparr>loaded_libs := loaded_libs s, init_cudalibs_flag := init_cudalibs_flag s\<rparr>"
  have eq: "?t = s" using init_cudalibs_frame [OF assms] by simp
  have "jit_binary ?t = jit_binary s" by (simp only: eq)
  then show "jit_binary s' = jit_binary s" by simp
  have "handles ?t = handles s" by (simp only: eq)
  then show "handles s' = handles s" by simp
  have "toolchain_log ?t = toolchain_log s" by (simp only: eq)
  then show "toolchain_log s' = toolchain_log s" by simp
  have "fs ?t = fs s" by (simp only: eq)
  then show "fs s' = fs s" by simp
  have "save_folder ?t = save_folder s" by (simp only: eq)
  then show "save_folder s' = save_folder s" by simp
  have "use_cuda ?t = use_cuda s" by (simp only: eq)
  then show "use_cuda s' = use_cuda s" by simp
  have "next_handle ?t = next_handle s" by (simp only: eq)
  then show "next_handle s' = next_handle s" by simp
  show "init_cudalibs_flag s \<Longrightarrow> init_cudalibs_flag s'"
    using init_cudalibs_frame [OF assms] by simp
qed

lemma step_keeps_flag:
  "init_cudalibs_flag s \<Longrightarrow> init_cudalibs_flag (step e op s)"
proof (cases op)
  case (Set_build_folder path rsf ra)
  then show "init_cudalibs_flag s \<Longrightarrow> ?thesis"
    using set_build_folder_keeps(1) [of e path rsf ra s] by (simp add: prod_eq_iff)
next
  case Init_cudalibs
  then show "init_cudalibs_flag s \<Longrightarrow> ?thesis"
    using init_cudalibs_keeps(8) [of e s] by (simp add: prod_eq_iff)
next
  case (Get_kernel sig src cfg)
  then show "init_cudalibs_flag s \<Longrightarrow> ?thesis"
    using get_kernel_keeps(5) [of e sig src cfg s] by (simp add: prod_eq_iff)
next
  case (Reset p)
  then show "init_cudalibs_flag s \<Longrightarrow> ?thesis" by (simp add: reset_def)
qed

lemma run_keeps_flag:
  "init_cudalibs_flag s \<Longrightarrow> init_cudalibs_flag (run e ops s)"
  by (induction ops arbitrary: s) (simp_all add: step_keeps_flag)

lemma step_keeps_jit_binary: "jit_binary (step e op s) = jit_binary s"
proof (cases op)
  case (Set_build_folder path rsf ra)
  then show ?thesis
    using set_build_folder_keeps(2) [of e path rsf ra s] by (simp add: prod_eq_iff)
next
  case Init_cudalibs
  then show ?thesis
    using init_cudalibs_keeps(1) [of e s] by (simp add: prod_eq_iff)
next
  case (Get_kernel sig src cfg)
  then show ?thesis
    using get_kernel_keeps(1) [of e sig src cfg s] by (simp add: prod_eq_iff)
next
  case (Reset p)
  then show ?thesis by (simp add: reset_def)
qed

lemma run_keeps_jit_binary: "jit_binary (run e ops s) = jit_binary s"
  by (induction ops arbitrary: s) (simp_all add: step_keeps_jit_binary)

section \<open>The runtime libraries\<close>

text \<open>
  What the preloader does in general. A first call (the flag is false) whose three
  \<^verbatim>\<open>CDLL\<close> calls succeed hands to \<^verbatim>\<open>CDLL\<close>, in mode \<^verbatim>\<open>RTLD_GLOBAL\<close> and in this
  order, whatever \<open>find_library\<close> returns for \<open>nvrtc\<close>, \<open>cuda\<close> and \<open>cudart\<close>, and
  sets the flag; nothing else changes. A call with the flag set returns at once and
  changes nothing. Once the flag is set, it stays set through every sequence of calls of
  \<open>set_build_folder\<close>, \<open>init_cudalibs\<close>, \<open>get_kernel\<close> and \<open>reset\<close>, whether they
  return or raise.
\<close>

lemma init_cudalibs_calls:
  "(\<not> init_cudalibs_flag s \<and> dlopen_ok e (find_library e ''nvrtc'')
      \<and> dlopen_ok e (find_library e ''cuda'') \<and> dlopen_ok e (find_library e ''cudart'') \<longrightarrow>
    init_cudalibs e s =
      (Inr (),
       s\<lparr>loaded_libs := loaded_libs s @
            [(find_library e ''nvrtc'', RTLD_GLOBAL), (find_library e ''cuda'', RTLD_GLOBAL),
             (find_library e ''cudart'', RTLD_GLOBAL)],
         init_cudalibs_flag := True\<rparr>))
   \<and> (init_cudalibs_flag s \<longrightarrow> init_cudalibs e s = (Inr (), s))
   \<and> (init_cudalibs_flag s \<longrightarrow> init_cudalibs_flag (run e ops s))"
proof (intro conjI impI)
  assume first: "\<not> init_cudalibs_flag s \<and> dlopen_ok e (find_library e ''nvrtc'')
      \<and> dlopen_ok e (find_library e ''cuda'') \<and> dlopen_ok e (find_library e ''cudart'')"
  let ?s1 = "s\<lparr>loaded_libs := loaded_libs s @ [(find_library e ''nvrtc'', RTLD_GLOBAL)]\<rparr>"
  let ?s2 = "?s1\<lparr>loaded_libs := loaded_libs ?s1 @ [(find_library e ''cuda'', RTLD_GLOBAL)]\<rparr>"
  let ?s3 = "?s2\<lparr>loaded_libs := loaded_libs ?s2 @ [(find_library e ''cudart'', RTLD_GLOBAL)]\<rparr>"
  have "cdll_global e (find_library e ''nvrtc'') s = (Inr (), ?s1)"
    and "cdll_global e (find_library e ''cuda'') ?s1 = (Inr (), ?s2)"
    and "cdll_global e (find_library e ''cudart'') ?s2 = (Inr (), ?s3)"
    using first by (simp_all add: cdll_global_def)
  then have "init_cudalibs e s = (Inr (), ?s3\<lparr>init_cudalibs_flag := True\<rparr>)"
    using first by (simp add: init_cudalibs_def)
  then show "init_cudalibs e s =
      (Inr (),
       s\<lparr>loaded_libs := loaded_libs s @
            [(find_library e ''nvrtc'', RTLD_GLOBAL), (find_library e ''cuda'', RTLD_GLOBAL),
             (find_library e ''cudart'', RTLD_GLOBAL)],
         init_cudalibs_flag := True\<rparr>)"
    by simp
next
  assume "init_cudalibs_flag s"
  then show "init_cudalibs e s = (Inr (), s)" by (simp add: init_cudalibs_def)
next
  assume "init_cudalibs_flag s"
  then show "init_cudalibs_flag (run e ops s)" by (rule run_keeps_flag)
qed

lemma init_cudalibs_calls_on_linux:
  "\<not> init_cudalibs_flag started
   \<and> dlopen_ok linux_gpu (find_library linux_gpu ''nvrtc'')
   \<and> dlopen_ok linux_gpu (find_library linux_gpu ''cuda'')
   \<and> dlopen_ok linux_gpu (find_library linux_gpu ''cudart'')
   \<and> init_cudalibs linux_gpu started =
       (Inr (),
        started\<lparr>loaded_libs :=
                  [(Some ''libnvrtc.so'', RTLD_GLOBAL), (Some ''libcuda.so'', RTLD_GLOBAL),
                   (Some ''libcudart.so'', RTLD_GLOBAL)],
                init_cudalibs_flag := True\<rparr>)
   \<and> init_cudalibs_flag (snd (init_cudalibs linux_gpu started))
   \<and> init_cudalibs linux_gpu (snd (init_cudalibs linux_gpu started))
       = (Inr (), snd (init_cudalibs linux_gpu started))
   \<and> init_cudalibs_flag
       (run linux_gpu
          [Set_build_folder (Some ''/h/b2'') False True, Get_kernel ''k'' ''src'' ''cfg'',
           Reset None, Init_cudalibs]
          (snd (init_cudalibs linux_gpu started)))"
proof -
  have h: "\<not> init_cudalibs_flag started
      \<and> dlopen_ok linux_gpu (find_library linux_gpu ''nvrtc'')
      \<and> dlopen_ok linux_gpu (find_library linux_gpu ''cuda'')
      \<and> dlopen_ok linux_gpu (find_library linux_gpu ''cudart'')"
    by (simp add: started_def globals_at_line_44_def linux_gpu_def)
  have libs: "find_library linux_gpu ''nvrtc'' = Some ''libnvrtc.so''"
      "find_library linux_gpu ''cuda'' = Some ''libcuda.so''"
      "find_library linux_gpu ''cudart'' = Some ''libcudart.so''"
      "loaded_libs started = []"
    by (simp_all add: started_def globals_at_line_44_def linux_gpu_def)
  have first: "init_cudalibs linux_gpu started =
       (Inr (),
        started\<lparr>loaded_libs :=
                  [(Some ''libnvrtc.so'', RTLD_GLOBAL), (Some ''libcuda.so'', RTLD_GLOBAL),
                   (Some ''libcudart.so'', RTLD_GLOBAL)],
                init_cudalibs_flag := True\<rparr>)"
    using init_cudalibs_calls [of started linux_gpu "[]"] h by (simp add: libs)
  have set: "init_cudalibs_flag (snd (init_cudalibs linux_gpu started))"
    by (simp add: first)
  show ?thesis
    using h first set
      init_cudalibs_calls [of "snd (init_cudalibs linux_gpu started)" linux_gpu
        "[Set_build_folder (Some ''/h/b2'') False True, Get_kernel ''k'' ''src'' ''cfg'',
          Reset None, Init_cudalibs]"]
    by blast
qed

lemma init_cudalibs_noop:
  "init_cudalibs_flag s \<Longrightarrow> init_cudalibs e s = (Inr (), s)"
  by (simp add: init_cudalibs_def)

lemma import_no_cudart:
  "\<exists>s0. module_init linux_no_cudart True True bare_fs = Inr s0
     \<and> use_cuda s0 \<and> cuda_available s0 \<and> \<not> init_cudalibs_flag s0 \<and> loaded_libs s0 = []"
  by (simp add: module_init_def configure_cuda_def probe_def get_gpu_props_def
        cuda_dependencies_def eval_defs linux_no_cudart_def linux_gpu_def bare_fs_def)

text \<open>
  C8, where the code misses the claim. The probe of lines 107 and 108 asks for \<open>cuda\<close>
  and \<open>nvrtc\<close> only, so the import ends in GPU mode on a machine where \<open>cudart\<close> does
  not resolve. There the first call of \<open>init_cudalibs\<close> hands \<open>None\<close> to the third
  \<^verbatim>\<open>CDLL\<close>, which opens the running program and not \<open>cudart\<close>; the call returns
  without an error and sets the flag, and the next call is a no-op: only two of the three
  libraries are ever loaded, against the comment of lines 160 and 161.
\<close>

theorem cudart_unresolved_not_loaded:
  "\<exists>s0. module_init linux_no_cudart True True bare_fs = Inr s0
     \<and> use_cuda s0 \<and> \<not> init_cudalibs_flag s0 \<and> loaded_libs s0 = []
     \<and> find_library linux_no_cudart ''cudart'' = None
     \<and> init_cudalibs linux_no_cudart s0 =
         (Inr (),
          s0\<lparr>loaded_libs :=
                [(Some ''libnvrtc.so'', RTLD_GLOBAL), (Some ''libcuda.so'', RTLD_GLOBAL),
                 (None, RTLD_GLOBAL)],
              init_cudalibs_flag := True\<rparr>)
     \<and> init_cudalibs linux_no_cudart (snd (init_cudalibs linux_no_cudart s0))
         = (Inr (), snd (init_cudalibs linux_no_cudart s0))"
proof -
  obtain s0 where s0: "module_init linux_no_cudart True True bare_fs = Inr s0"
      "use_cuda s0" "\<not> init_cudalibs_flag s0" "loaded_libs s0 = []"
    using import_no_cudart by blast
  have libs: "find_library linux_no_cudart ''nvrtc'' = Some ''libnvrtc.so''"
      "find_library linux_no_cudart ''cuda'' = Some ''libcuda.so''"
      "find_library linux_no_cudart ''cudart'' = None"
      "dlopen_ok linux_no_cudart = (\<lambda>name. True)"
    by (simp_all add: linux_no_cudart_def linux_gpu_def)
  have first: "init_cudalibs linux_no_cudart s0 =
         (Inr (),
          s0\<lparr>loaded_libs :=
                [(Some ''libnvrtc.so'', RTLD_GLOBAL), (Some ''libcuda.so'', RTLD_GLOBAL),
                 (None, RTLD_GLOBAL)],
              init_cudalibs_flag := True\<rparr>)"
    using s0(3,4) by (simp add: init_cudalibs_def cdll_global_def libs)
  have "init_cudalibs_flag (snd (init_cudalibs linux_no_cudart s0))"
    by (simp add: first)
  then have again: "init_cudalibs linux_no_cudart (snd (init_cudalibs linux_no_cudart s0))
         = (Inr (), snd (init_cudalibs linux_no_cudart s0))"
    by (rule init_cudalibs_noop)
  show ?thesis using s0 libs(3) first again by blast
qed

section \<open>The recorded location of the GPU JIT launcher\<close>

lemma module_init_jit_binary:
  assumes "module_init e use_cuda0 use_OpenMP0 fs0 = Inr s0"
  shows "jit_binary s0 =
           (if use_cuda s0 then Some (join (build_path s0) ''keops_nvrtc.so'') else None)"
  using assms
  by (auto simp: module_init_def import_to_line_102_def configure_cuda_def Let_def
        split: sum.splits prod.splits if_splits)

lemma set_build_folder_build_path:
  "choose_path e path rsf (fs s) = Inr chosen \<Longrightarrow>
   build_path (snd (set_build_folder e path rsf ra s)) = chosen"
  by (auto simp: set_build_folder_def reset_and_provision_def compile_jit_compile_dll_def
        reset_def Let_def split: sum.splits if_splits)

lemma import_linux:
  "\<exists>s0. module_init linux_gpu True True bare_fs = Inr s0
     \<and> use_cuda s0 \<and> build_path s0 = ''/h/.cache/keops/build''"
  by (simp add: module_init_def configure_cuda_def probe_def get_gpu_props_def
        cuda_dependencies_def eval_defs linux_gpu_def bare_fs_def)

text \<open>
  C9. After the import, \<open>jit_binary\<close> is the build path of that time joined with
  \<^verbatim>\<open>keops_nvrtc.so\<close> (or \<open>None\<close> when GPU mode is off). A later call of
  \<open>set_build_folder\<close>, after any other calls, leaves \<open>jit_binary\<close> as it was, while
  the global \<open>build_path\<close> becomes the path that was given.
\<close>

theorem jit_binary_not_relocated:
  assumes "module_init e use_cuda0 use_OpenMP0 fs0 = Inr s0"
  shows "jit_binary s0 =
           (if use_cuda s0 then Some (join (build_path s0) ''keops_nvrtc.so'') else None)
         \<and> jit_binary (snd (set_build_folder e path rsf ra (run e ops s0))) = jit_binary s0
         \<and> (truthy path \<longrightarrow>
              build_path (snd (set_build_folder e path rsf ra (run e ops s0))) = the path)"
proof (intro conjI impI)
  show "jit_binary s0 =
           (if use_cuda s0 then Some (join (build_path s0) ''keops_nvrtc.so'') else None)"
    by (rule module_init_jit_binary [OF assms])
  show "jit_binary (snd (set_build_folder e path rsf ra (run e ops s0))) = jit_binary s0"
    using set_build_folder_keeps(2) [of e path rsf ra "run e ops s0"]
    by (simp add: prod_eq_iff run_keeps_jit_binary)
  assume "truthy path"
  then have "choose_path e path rsf (fs (run e ops s0)) = Inr (the path)"
    by (simp add: choose_path_def)
  then show "build_path (snd (set_build_folder e path rsf ra (run e ops s0))) = the path"
    by (rule set_build_folder_build_path)
qed

theorem jit_binary_not_relocated_witness:
  "\<exists>s0. module_init linux_gpu True True bare_fs = Inr s0
     \<and> build_path s0 = ''/h/.cache/keops/build''
     \<and> jit_binary s0 = Some ''/h/.cache/keops/build/keops_nvrtc.so''
     \<and> build_path (snd (set_build_folder linux_gpu (Some ''/h/b2'') False True s0)) = ''/h/b2''
     \<and> jit_binary (snd (set_build_folder linux_gpu (Some ''/h/b2'') False True s0))
         = Some ''/h/.cache/keops/build/keops_nvrtc.so''"
proof -
  obtain s0 where s0: "module_init linux_gpu True True bare_fs = Inr s0"
      "use_cuda s0" "build_path s0 = ''/h/.cache/keops/build''"
    using import_linux by blast
  have j: "join ''/h/.cache/keops/build'' ''keops_nvrtc.so'' = ''/h/.cache/keops/build/keops_nvrtc.so''"
    by (simp add: join_def sep_def)
  have t: "truthy (Some ''/h/b2'')" by (simp add: truthy_def)
  from jit_binary_not_relocated [OF s0(1), of "Some ''/h/b2''" False True "[]"] s0(2,3) j t
  have "jit_binary s0 = Some ''/h/.cache/keops/build/keops_nvrtc.so''
     \<and> build_path (snd (set_build_folder linux_gpu (Some ''/h/b2'') False True s0)) = ''/h/b2''
     \<and> jit_binary (snd (set_build_folder linux_gpu (Some ''/h/b2'') False True s0))
         = Some ''/h/.cache/keops/build/keops_nvrtc.so''"
    by simp
  then show ?thesis using s0 by blast
qed

section \<open>The build folder\<close>

lemma mkdir_chain_no_files:
  "mkdir_chain fsys qs = Inr fs1 \<Longrightarrow> \<forall>q\<in>set qs. \<forall>c. fsys q \<noteq> Some (File c)"
proof (induction qs arbitrary: fsys)
  case Nil
  then show ?case by simp
next
  case (Cons q qs)
  show ?case
  proof (cases "fsys q")
    case None
    with Cons.prems have "mkdir_chain (fsys(q \<mapsto> Dir)) qs = Inr fs1" by simp
    from Cons.IH [OF this] have "\<forall>q'\<in>set qs. \<forall>c. (fsys(q \<mapsto> Dir)) q' \<noteq> Some (File c)" .
    then have "\<forall>q'\<in>set qs. \<forall>c. fsys q' \<noteq> Some (File c)"
      using None by (metis fun_upd_apply option.distinct(1))
    then show ?thesis using None by simp
  next
    case (Some n)
    show ?thesis
    proof (cases n)
      case (File c)
      with Some Cons.prems show ?thesis by simp
    next
      case Dir
      with Some Cons.prems have "mkdir_chain fsys qs = Inr fs1" by simp
      from Cons.IH [OF this] Some Dir show ?thesis by simp
    qed
  qed
qed

lemma makedirs_result:
  assumes "makedirs fsys p ok = Inr fs1"
  shows "p \<noteq> []" and "fs1 p = Some Dir"
    and "fs1 = (\<lambda>q. if q \<in> set (ancestors p) \<or> q = p then Some Dir else fsys q)"
    and "\<forall>q. fsys q \<noteq> None \<longrightarrow> fs1 q = fsys q"
proof -
  show ne: "p \<noteq> []" using assms by (auto simp: makedirs_def)
  obtain fs0 where chain: "mkdir_chain fsys (ancestors p) = Inr fs0"
    using assms ne by (auto simp: makedirs_def split: sum.splits)
  have nofile: "\<forall>q\<in>set (ancestors p). \<forall>c. fsys q \<noteq> Some (File c)"
    by (rule mkdir_chain_no_files [OF chain])
  have fs0: "fs0 = (\<lambda>q. if q \<in> set (ancestors p) then Some Dir else fsys q)"
    using mkdir_chain_result [OF nofile] chain by simp
  have leaf: "(case fs0 p of None \<Rightarrow> Inr (fs0(p \<mapsto> Dir))
              | Some Dir \<Rightarrow> if ok then Inr fs0 else Inl (FileExistsError p)
              | Some (File c) \<Rightarrow> Inl (FileExistsError p)) = Inr fs1"
    using assms ne chain by (simp add: makedirs_def)
  have p0: "fs0 p = fsys p"
    using ancestors_not_below [of p p] by (auto simp: fs0)
  show eq: "fs1 = (\<lambda>q. if q \<in> set (ancestors p) \<or> q = p then Some Dir else fsys q)"
  proof (cases "fsys p")
    case None
    with leaf p0 have "fs1 = fs0(p \<mapsto> Dir)" by simp
    then show ?thesis by (auto simp: fs0)
  next
    case (Some n)
    with leaf p0 have "n = Dir \<and> fs1 = fs0"
      by (cases n) (auto split: if_splits)
    with Some show ?thesis by (auto simp: fs0)
  qed
  show "fs1 p = Some Dir" by (simp add: eq)
  have leafdir: "fsys p = None \<or> fsys p = Some Dir"
    using leaf p0 by (auto split: option.splits node.splits)
  show "\<forall>q. fsys q \<noteq> None \<longrightarrow> fs1 q = fsys q"
  proof (intro allI impI)
    fix q assume q: "fsys q \<noteq> None"
    show "fs1 q = fsys q"
    proof (cases "q \<in> set (ancestors p)")
      case True
      with nofile q have "fsys q = Some Dir"
        by (cases "fsys q") (auto, metis node.exhaust)
      with True show ?thesis by (simp add: eq)
    next
      case False
      with leafdir q show ?thesis by (auto simp: eq)
    qed
  qed
qed

lemma write_file_result:
  assumes "write_file fsys p c = Inr fs2"
  shows "fs2 = fsys(p \<mapsto> File c)" and "fsys p \<noteq> Some Dir"
  using assms by (auto simp: write_file_def split: if_splits option.splits node.splits)

lemma join_relative:
  assumes "b \<noteq> []" "hd b \<noteq> sep"
  shows "length a < length (join a b)" and "last (join a b) = last b"
  using assms by (auto simp: join_def)

lemma jit_not_save_file: "join a ''keops_nvrtc.so'' \<noteq> save_file e"
proof -
  have "last (join a ''keops_nvrtc.so'') = CHR ''o''"
    using join_relative(2) [of "''keops_nvrtc.so''" a] by (simp add: sep_def)
  moreover have "last (save_file e) = CHR ''t''"
    using join_relative(2) [of "''build_folder_location.txt''" "keops_cache_folder e"]
    by (simp add: sep_def save_file_def)
  ultimately show ?thesis by auto
qed

lemma jit_not_in_folder_chain:
  "join a ''keops_nvrtc.so'' \<notin> set (ancestors a) \<and> join a ''keops_nvrtc.so'' \<noteq> a"
  using join_relative(1) [of "''keops_nvrtc.so''" a] ancestors_shorter [of "join a ''keops_nvrtc.so''" a]
  by (auto simp: sep_def)

lemma set_build_folder_returns:
  assumes "set_build_folder e path rsf ra s = (Inr (), s')"
  shows "\<exists>chosen fs1.
           choose_path e path rsf (fs s) = Inr chosen
           \<and> makedirs (fs s) chosen True = Inr fs1
           \<and> write_file fs1 (save_file e) chosen = Inr (fs1(save_file e \<mapsto> File chosen))
           \<and> (if ra
              then reset_and_provision e
                     (s\<lparr>build_path := chosen, fs := fs1(save_file e \<mapsto> File chosen)\<rparr>) = (Inr (), s')
              else s' = s\<lparr>build_path := chosen, fs := fs1(save_file e \<mapsto> File chosen)\<rparr>)"
proof -
  obtain chosen where c: "choose_path e path rsf (fs s) = Inr chosen"
    using assms by (auto simp: set_build_folder_def split: sum.splits)
  obtain fs1 where m: "makedirs (fs s) chosen True = Inr fs1"
    using assms c by (auto simp: set_build_folder_def Let_def split: sum.splits)
  obtain fs2 where w: "write_file fs1 (save_file e) chosen = Inr fs2"
    using assms c m by (auto simp: set_build_folder_def Let_def split: sum.splits)
  have fs2: "fs2 = fs1(save_file e \<mapsto> File chosen)"
    by (rule write_file_result(1) [OF w])
  show ?thesis
    using assms c m w fs2 by (auto simp: set_build_folder_def Let_def split: if_splits)
qed


lemma reset_and_provision_result:
  assumes "reset_and_provision e t = (Inr (), s')"
  shows "build_path s' = build_path t" and "handles s' = Map.empty"
    and "save_folder s' = build_path t" and "use_cuda s' = use_cuda t"
    and "fs s' = fs t
         \<or> (use_cuda t \<and> fs t (join (build_path t) ''keops_nvrtc.so'') = None
            \<and> fs s' = (fs t)(join (build_path t) ''keops_nvrtc.so''
                              \<mapsto> File (jit_launcher_binary e)))"
    and "use_cuda t \<Longrightarrow> exists (fs s') (join (build_path t) ''keops_nvrtc.so'')"
  using assms
  by (auto simp: reset_and_provision_def reset_def compile_jit_compile_dll_def jit_compile_dll_def
        exists_def Let_def dest: write_file_result(1) split: if_splits sum.splits)

lemma choose_path_cases:
  assumes "choose_path e path rsf fsys = Inr chosen"
  shows "(\<forall>x. path = Some x \<and> x \<noteq> [] \<longrightarrow> chosen = x)
       \<and> (\<forall>c. \<not> truthy path \<and> rsf \<and> fsys (save_file e) = Some (File c)
              \<longrightarrow> chosen = universal_newlines c)
       \<and> (\<not> truthy path \<and> \<not> (rsf \<and> isfile fsys (save_file e)) \<longrightarrow> chosen = default_build_path e)"
  using assms
  by (auto simp: choose_path_def truthy_def isfile_def read_file_def
        split: if_splits option.splits)

lemmas call_defs =
  set_build_folder_def choose_path_def reset_and_provision_def reset_def
  compile_jit_compile_dll_def jit_compile_dll_def
  makedirs_def write_file_def read_file_def carriage_return_def line_feed_def
  exists_def isfile_def truthy_def
  keops_cache_folder_def save_file_def default_build_path_def
  join_def ancestors_def sep_def
  started_def loaded_def globals_at_line_44_def running_fs_def linux_gpu_def

lemma relocate_started:
  "fst (set_build_folder linux_gpu (Some ''/h/b2'') False False started) = Inr ()"
  by (simp add: call_defs)

lemma reread_saved:
  "fst (set_build_folder linux_gpu None True False
          (snd (set_build_folder linux_gpu (Some ''/h/b2'') False False started))) = Inr ()
   \<and> fs (snd (set_build_folder linux_gpu (Some ''/h/b2'') False False started))
        (save_file linux_gpu) = Some (File ''/h/b2'')"
  by (simp add: call_defs)

lemma default_started:
  "fst (set_build_folder linux_gpu None False False
          (snd (set_build_folder linux_gpu (Some ''/h/b2'') False False started))) = Inr ()
   \<and> default_build_path linux_gpu = ''/h/.cache/keops/build''
   \<and> save_file linux_gpu = ''/h/.cache/keops/build_folder_location.txt''"
  by (simp add: call_defs)

lemma set_build_folder_no_reset:
  "set_build_folder e path rsf False s = (r, s') \<Longrightarrow>
   handles s' = handles s \<and> save_folder s' = save_folder s"
  by (auto simp: set_build_folder_def Let_def split: sum.splits)

lemma set_build_folder_no_launcher:
  assumes "set_build_folder e path rsf False s = (r, s')"
  shows "fs s' (jit_compile_dll s') = fs s (jit_compile_dll s')"
proof (cases "choose_path e path rsf (fs s)")
  case (Inl err)
  with assms show ?thesis by (auto simp: set_build_folder_def)
next
  case chosen: (Inr chosen)
  let ?jit = "join chosen ''keops_nvrtc.so''"
  show ?thesis
  proof (cases "makedirs (fs s) chosen True")
    case (Inl err)
    with assms chosen show ?thesis by (auto simp: set_build_folder_def)
  next
    case made: (Inr fs1)
    have j1: "fs1 ?jit = fs s ?jit"
      using makedirs_result(3) [OF made] jit_not_in_folder_chain [of chosen] by simp
    show ?thesis
    proof (cases "write_file fs1 (save_file e) chosen")
      case (Inl err)
      with assms chosen made j1 show ?thesis
        by (auto simp: set_build_folder_def jit_compile_dll_def)
    next
      case (Inr fs2)
      then have "fs2 = fs1(save_file e \<mapsto> File chosen)" by (rule write_file_result(1))
      with assms chosen made Inr j1 jit_not_save_file [of chosen e] show ?thesis
        by (auto simp: set_build_folder_def jit_compile_dll_def)
    qed
  qed
qed

lemma relocate_loaded:
  "fst (set_build_folder linux_gpu (Some ''/h/b2'') False True loaded) = Inr ()
   \<and> build_path (snd (set_build_folder linux_gpu (Some ''/h/b2'') False True loaded)) = ''/h/b2''
   \<and> handles loaded ''k'' = Some (Handle 0 ''/h/.cache/keops/build/k.so'')
   \<and> use_cuda loaded
   \<and> fs loaded ''/h/b2/keops_nvrtc.so'' = None
   \<and> join ''/h/b2'' ''keops_nvrtc.so'' = ''/h/b2/keops_nvrtc.so''
   \<and> jit_launcher_binary linux_gpu = ''jit''"
  by (simp add: call_defs)

text \<open>
  C4. Whenever \<open>set_build_folder\<close> returns, the build path is, in this order of
  precedence: the path given, when one is given (a value that Python takes as true, so
  neither \<open>None\<close> nor the empty string), taken verbatim; otherwise, when the save file
  is to be read and is a regular file under the cache folder, its contents as text mode
  reads them (\<^verbatim>\<open>\r\n\<close> and \<^verbatim>\<open>\r\<close> come back as \<^verbatim>\<open>\n\<close>); otherwise the
  default folder \<open>build\<close> of the cache folder. The chosen folder is a directory
  afterwards, the save file holds exactly the chosen path, and whatever existed before,
  the save file apart, is as it was.
\<close>

theorem build_path_precedence:
  assumes "set_build_folder e path rsf ra s = (Inr (), s')"
  shows "(\<forall>x. path = Some x \<and> x \<noteq> [] \<longrightarrow> build_path s' = x)
       \<and> (\<forall>c. \<not> truthy path \<and> rsf \<and> fs s (save_file e) = Some (File c)
              \<longrightarrow> build_path s' = universal_newlines c)
       \<and> (\<not> truthy path \<and> \<not> (rsf \<and> isfile (fs s) (save_file e))
            \<longrightarrow> build_path s' = default_build_path e)
       \<and> fs s' (build_path s') = Some Dir
       \<and> fs s' (save_file e) = Some (File (build_path s'))
       \<and> (\<forall>p. fs s p \<noteq> None \<and> p \<noteq> save_file e \<longrightarrow> fs s' p = fs s p)"
proof -
  from set_build_folder_returns [OF assms]
  obtain chosen fs1 where c: "choose_path e path rsf (fs s) = Inr chosen"
    and m: "makedirs (fs s) chosen True = Inr fs1"
    and w: "write_file fs1 (save_file e) chosen = Inr (fs1(save_file e \<mapsto> File chosen))"
    and r: "if ra
            then reset_and_provision e
                   (s\<lparr>build_path := chosen, fs := fs1(save_file e \<mapsto> File chosen)\<rparr>) = (Inr (), s')
            else s' = s\<lparr>build_path := chosen, fs := fs1(save_file e \<mapsto> File chosen)\<rparr>"
    by blast
  let ?fs2 = "fs1(save_file e \<mapsto> File chosen)"
  let ?jit = "join chosen ''keops_nvrtc.so''"
  have dir1: "fs1 chosen = Some Dir" by (rule makedirs_result(2) [OF m])
  have neq: "chosen \<noteq> save_file e"
    using dir1 write_file_result(2) [OF w] by auto
  have bp: "build_path s' = chosen"
    using r reset_and_provision_result(1) by (auto split: if_splits)
  have fs': "fs s' = ?fs2 \<or> (?fs2 ?jit = None \<and> fs s' = ?fs2(?jit \<mapsto> File (jit_launcher_binary e)))"
  proof (cases ra)
    case True
    with r have "reset_and_provision e (s\<lparr>build_path := chosen, fs := ?fs2\<rparr>) = (Inr (), s')"
      by simp
    from reset_and_provision_result(5) [OF this] show ?thesis by auto
  next
    case False
    with r show ?thesis by simp
  qed
  have jit: "?jit \<noteq> chosen" "?jit \<noteq> save_file e"
    using jit_not_in_folder_chain [of chosen] jit_not_save_file [of chosen e] by auto
  have d: "fs s' chosen = Some Dir"
    using fs' dir1 neq jit by auto
  have f: "fs s' (save_file e) = Some (File chosen)"
    using fs' jit by auto
  have keep: "\<forall>p. fs s p \<noteq> None \<and> p \<noteq> save_file e \<longrightarrow> fs s' p = fs s p"
  proof (intro allI impI)
    fix p assume p: "fs s p \<noteq> None \<and> p \<noteq> save_file e"
    then have p1: "fs1 p = fs s p" using makedirs_result(4) [OF m] by blast
    then have "?fs2 p = fs s p" using p by simp
    moreover from this p have "p \<noteq> ?jit \<or> ?fs2 ?jit \<noteq> None" by auto
    ultimately show "fs s' p = fs s p" using fs' by auto
  qed
  show ?thesis
    using choose_path_cases [OF c] bp d f keep by simp
qed

theorem build_path_precedence_witness:
  "fst (set_build_folder linux_gpu (Some ''/h/b2'') False False started) = Inr ()
   \<and> build_path (snd (set_build_folder linux_gpu (Some ''/h/b2'') False False started)) = ''/h/b2''
   \<and> fs (snd (set_build_folder linux_gpu (Some ''/h/b2'') False False started)) ''/h/b2''
       = Some Dir
   \<and> fs (snd (set_build_folder linux_gpu (Some ''/h/b2'') False False started))
        ''/h/.cache/keops/build_folder_location.txt'' = Some (File ''/h/b2'')
   \<and> fst (set_build_folder linux_gpu None True False
          (snd (set_build_folder linux_gpu (Some ''/h/b2'') False False started))) = Inr ()
   \<and> build_path (snd (set_build_folder linux_gpu None True False
          (snd (set_build_folder linux_gpu (Some ''/h/b2'') False False started)))) = ''/h/b2''
   \<and> fst (set_build_folder linux_gpu None False False
          (snd (set_build_folder linux_gpu (Some ''/h/b2'') False False started))) = Inr ()
   \<and> build_path (snd (set_build_folder linux_gpu None False False
          (snd (set_build_folder linux_gpu (Some ''/h/b2'') False False started))))
       = ''/h/.cache/keops/build''"
proof -
  let ?s1 = "snd (set_build_folder linux_gpu (Some ''/h/b2'') False False started)"
  let ?s2 = "snd (set_build_folder linux_gpu None True False ?s1)"
  let ?s3 = "snd (set_build_folder linux_gpu None False False ?s1)"
  have e1: "set_build_folder linux_gpu (Some ''/h/b2'') False False started = (Inr (), ?s1)"
    using relocate_started by (simp add: prod_eq_iff)
  have e2: "set_build_folder linux_gpu None True False ?s1 = (Inr (), ?s2)"
    using reread_saved by (simp add: prod_eq_iff)
  have e3: "set_build_folder linux_gpu None False False ?s1 = (Inr (), ?s3)"
    using default_started by (simp add: prod_eq_iff)
  have t: "\<not> truthy None" by (simp add: truthy_def)
  have a: "build_path ?s1 = ''/h/b2'' \<and> fs ?s1 ''/h/b2'' = Some Dir
        \<and> fs ?s1 ''/h/.cache/keops/build_folder_location.txt'' = Some (File ''/h/b2'')"
  proof -
    note p = build_path_precedence [OF e1]
    have bp: "build_path ?s1 = ''/h/b2''" using p by blast
    have "fs ?s1 (build_path ?s1) = Some Dir"
      and "fs ?s1 (save_file linux_gpu) = Some (File (build_path ?s1))"
      using p by blast+
    then show ?thesis using bp default_started by simp
  qed
  have b: "build_path ?s2 = ''/h/b2''"
  proof -
    have "build_path ?s2 = universal_newlines ''/h/b2''"
      using build_path_precedence [OF e2] reread_saved t by blast
    then show ?thesis by (simp add: carriage_return_def)
  qed
  have c: "build_path ?s3 = ''/h/.cache/keops/build''"
    using build_path_precedence [OF e3] default_started t by metis
  show ?thesis
    using relocate_started reread_saved default_started a b c by blast
qed

text \<open>
  C3, as stated, fails: a call with \<open>reset_all\<close> false, as the module itself makes at
  line 68, changes the build path and returns, yet the loaded handle of \<open>k\<close> is still
  in the registry, and in GPU mode no GPU JIT launcher exists in the new folder.
\<close>

theorem relocation_without_reset:
  "fst (set_build_folder linux_gpu (Some ''/h/b2'') False False loaded) = Inr ()
   \<and> build_path loaded = ''/h/.cache/keops/build''
   \<and> build_path (snd (set_build_folder linux_gpu (Some ''/h/b2'') False False loaded)) = ''/h/b2''
   \<and> handles (snd (set_build_folder linux_gpu (Some ''/h/b2'') False False loaded)) ''k''
       = Some (Handle 0 ''/h/.cache/keops/build/k.so'')
   \<and> use_cuda (snd (set_build_folder linux_gpu (Some ''/h/b2'') False False loaded))
   \<and> jit_compile_dll (snd (set_build_folder linux_gpu (Some ''/h/b2'') False False loaded))
       = ''/h/b2/keops_nvrtc.so''
   \<and> \<not> exists (fs (snd (set_build_folder linux_gpu (Some ''/h/b2'') False False loaded)))
         ''/h/b2/keops_nvrtc.so''"
  by (simp add: call_defs)

text \<open>
  C3, amended. Whenever a call of \<open>set_build_folder\<close> with \<open>reset_all\<close> true returns,
  whether or not it changed the build path, the registry holds no handle and saves to the
  new build path, and in GPU mode the GPU JIT launcher exists in the new build folder: it
  is built there when it was missing. A call with \<open>reset_all\<close> false, however it ends,
  leaves the handles and the folder of the registry as they were and builds no launcher:
  the launcher path of the build folder it has set holds what it held before.
\<close>

theorem reset_all_drops_handles:
  "(set_build_folder e path rsf True s = (Inr (), s') \<longrightarrow>
      handles s' = Map.empty \<and> save_folder s' = build_path s'
      \<and> (use_cuda s \<longrightarrow> exists (fs s') (jit_compile_dll s'))
      \<and> (use_cuda s \<and> fs s (jit_compile_dll s') = None \<longrightarrow>
           fs s' (jit_compile_dll s') = Some (File (jit_launcher_binary e))))
   \<and> (set_build_folder e path rsf False s = (r, s'') \<longrightarrow>
      handles s'' = handles s \<and> save_folder s'' = save_folder s
      \<and> fs s'' (jit_compile_dll s'') = fs s (jit_compile_dll s''))"
proof (intro conjI impI)
  assume a: "set_build_folder e path rsf True s = (Inr (), s')"
  from set_build_folder_returns [OF a]
  obtain chosen fs1 where m: "makedirs (fs s) chosen True = Inr fs1"
    and r: "reset_and_provision e
              (s\<lparr>build_path := chosen, fs := fs1(save_file e \<mapsto> File chosen)\<rparr>) = (Inr (), s')"
    by auto
  let ?t = "s\<lparr>build_path := chosen, fs := fs1(save_file e \<mapsto> File chosen)\<rparr>"
  let ?jit = "join chosen ''keops_nvrtc.so''"
  note res = reset_and_provision_result [OF r]
  have bp: "build_path s' = chosen" using res(1) by simp
  have jit: "jit_compile_dll s' = ?jit" by (simp add: jit_compile_dll_def bp)
  show "handles s' = Map.empty" by (rule res(2))
  show "save_folder s' = build_path s'" using res(3) bp by simp
  show ex: "exists (fs s') (jit_compile_dll s')" if "use_cuda s"
    using res(6) that by (simp add: jit)
  show "fs s' (jit_compile_dll s') = Some (File (jit_launcher_binary e))"
    if h: "use_cuda s \<and> fs s (jit_compile_dll s') = None"
  proof -
    have "fs1 ?jit = fs s ?jit"
      using makedirs_result(3) [OF m] jit_not_in_folder_chain [of chosen] by simp
    then have none: "fs ?t ?jit = None"
      using h jit jit_not_save_file [of chosen e] by simp
    have "exists (fs s') ?jit" using ex h jit by simp
    with none res(5) show ?thesis by (auto simp: jit exists_def)
  qed
next
  assume a: "set_build_folder e path rsf False s = (r, s'')"
  then have "handles s'' = handles s \<and> save_folder s'' = save_folder s"
    by (rule set_build_folder_no_reset)
  then show "handles s'' = handles s" and "save_folder s'' = save_folder s" by simp_all
  show "fs s'' (jit_compile_dll s'') = fs s (jit_compile_dll s'')"
    by (rule set_build_folder_no_launcher [OF a])
qed

theorem reset_all_drops_handles_witness:
  "fst (set_build_folder linux_gpu (Some ''/h/b2'') False True loaded) = Inr ()
   \<and> handles loaded ''k'' = Some (Handle 0 ''/h/.cache/keops/build/k.so'')
   \<and> use_cuda loaded
   \<and> fs loaded ''/h/b2/keops_nvrtc.so'' = None
   \<and> handles (snd (set_build_folder linux_gpu (Some ''/h/b2'') False True loaded)) = Map.empty
   \<and> save_folder (snd (set_build_folder linux_gpu (Some ''/h/b2'') False True loaded)) = ''/h/b2''
   \<and> fs (snd (set_build_folder linux_gpu (Some ''/h/b2'') False True loaded))
        ''/h/b2/keops_nvrtc.so'' = Some (File ''jit'')
   \<and> handles (snd (set_build_folder linux_gpu (Some ''/h/b2'') False False loaded))
       = handles loaded
   \<and> fs (snd (set_build_folder linux_gpu (Some ''/h/b2'') False False loaded))
        (jit_compile_dll (snd (set_build_folder linux_gpu (Some ''/h/b2'') False False loaded)))
       = fs loaded
           (jit_compile_dll (snd (set_build_folder linux_gpu (Some ''/h/b2'') False False loaded)))"
proof -
  let ?s1 = "snd (set_build_folder linux_gpu (Some ''/h/b2'') False True loaded)"
  let ?s2 = "snd (set_build_folder linux_gpu (Some ''/h/b2'') False False loaded)"
  note l = relocate_loaded
  have e1: "set_build_folder linux_gpu (Some ''/h/b2'') False True loaded = (Inr (), ?s1)"
    using l by (simp add: prod_eq_iff)
  have e2: "set_build_folder linux_gpu (Some ''/h/b2'') False False loaded
              = (fst (set_build_folder linux_gpu (Some ''/h/b2'') False False loaded), ?s2)"
    by simp
  note t = reset_all_drops_handles [of linux_gpu "Some ''/h/b2''" False loaded ?s1
      "fst (set_build_folder linux_gpu (Some ''/h/b2'') False False loaded)" ?s2]
  have j: "jit_compile_dll ?s1 = ''/h/b2/keops_nvrtc.so''"
    using l by (simp add: jit_compile_dll_def)
  have a: "handles ?s1 = Map.empty" and b: "save_folder ?s1 = build_path ?s1"
    and c: "use_cuda loaded \<and> fs loaded (jit_compile_dll ?s1) = None \<longrightarrow>
            fs ?s1 (jit_compile_dll ?s1) = Some (File (jit_launcher_binary linux_gpu))"
    and d: "handles ?s2 = handles loaded"
    and n: "fs ?s2 (jit_compile_dll ?s2) = fs loaded (jit_compile_dll ?s2)"
    using t e1 e2 by blast+
  have c': "fs ?s1 ''/h/b2/keops_nvrtc.so'' = Some (File ''jit'')"
    using c l j by simp
  have b': "save_folder ?s1 = ''/h/b2''" using b l by simp
  show ?thesis using l a b' c' d n by blast
qed

section \<open>Requests to the kernel registry\<close>

lemma get_kernel_hit:
  "handles s sig = Some h \<Longrightarrow> get_kernel e sig src cfg s = (Inr h, s)"
  by (simp add: get_kernel_def)

lemma ensure_artifact_log:
  "ensure_artifact e sig src cfg s = (r, s1) \<Longrightarrow>
   handles s1 = handles s
   \<and> (toolchain_log s1 = toolchain_log s \<or> toolchain_log s1 = toolchain_log s @ [sig])"
  by (auto simp: ensure_artifact_def Let_def split: option.splits node.splits sum.splits)

lemma load_artifact_log:
  "load_artifact e sig binary s = (r, s1) \<Longrightarrow>
   handles s1 = handles s \<and> toolchain_log s1 = toolchain_log s"
  by (auto simp: load_artifact_def init_cudalibs_def cdll_global_def
        split: if_splits prod.splits sum.splits)

lemma get_kernel_miss:
  assumes "handles s sig = None" and "get_kernel e sig src cfg s = (r, s1)"
  shows "(toolchain_log s1 = toolchain_log s \<or> toolchain_log s1 = toolchain_log s @ [sig])
       \<and> (\<forall>k. k \<noteq> sig \<longrightarrow> handles s1 k = handles s k)
       \<and> (\<forall>h. r = Inr h \<longrightarrow> handles s1 sig = Some h)"
proof -
  obtain r1 t1 where e1: "ensure_artifact e sig src cfg s = (r1, t1)" by force
  note l1 = ensure_artifact_log [OF e1]
  show ?thesis
  proof (cases r1)
    case (Inl err)
    with assms e1 have "s1 = t1 \<and> r = Inl err" by (auto simp: get_kernel_def)
    with l1 show ?thesis by auto
  next
    case (Inr binary)
    obtain r2 t2 where e2: "load_artifact e sig binary t1 = (r2, t2)" by force
    note l2 = load_artifact_log [OF e2]
    show ?thesis
    proof (cases r2)
      case (Inl err)
      with assms e1 e2 Inr have "s1 = t2 \<and> r = Inl err" by (auto simp: get_kernel_def)
      with l1 l2 show ?thesis by auto
    next
      case h: (Inr h)
      with assms e1 e2 Inr have "s1 = t2\<lparr>handles := (handles t2)(sig \<mapsto> h)\<rparr> \<and> r = Inr h"
        by (auto simp: get_kernel_def)
      with l1 l2 show ?thesis by auto
    qed
  qed
qed

lemma get_kernel_returns:
  assumes "get_kernel e sig src cfg s = (Inr h, s1)"
  shows "handles s1 sig = Some h"
    and "count_list (toolchain_log s1) sig \<le> Suc (count_list (toolchain_log s) sig)"
proof -
  show "handles s1 sig = Some h"
  proof (cases "handles s sig")
    case None
    from get_kernel_miss [OF None assms] show ?thesis by simp
  next
    case (Some h')
    with assms show ?thesis by (simp add: get_kernel_def)
  qed
  show "count_list (toolchain_log s1) sig \<le> Suc (count_list (toolchain_log s) sig)"
  proof (cases "handles s sig")
    case None
    from get_kernel_miss [OF None assms] show ?thesis by auto
  next
    case (Some h')
    with assms show ?thesis by (simp add: get_kernel_def)
  qed
qed

lemma step_keeps_handle:
  assumes "handles s sig = Some h" and "\<not> resets op"
  shows "handles (step e op s) sig = Some h
       \<and> count_list (toolchain_log (step e op s)) sig = count_list (toolchain_log s) sig"
proof (cases op)
  case (Set_build_folder path rsf ra)
  with assms have ra: "\<not> ra" by simp
  obtain r s' where o: "set_build_folder e path rsf False s = (r, s')" by force
  from set_build_folder_no_reset [OF o] set_build_folder_keeps(4) [OF o] o assms ra
  show ?thesis by (simp add: Set_build_folder)
next
  case Init_cudalibs
  obtain r s' where o: "init_cudalibs e s = (r, s')" by force
  from init_cudalibs_keeps(2,3) [OF o] o assms show ?thesis by (simp add: Init_cudalibs)
next
  case (Get_kernel sig' src cfg)
  obtain r s' where o: "get_kernel e sig' src cfg s = (r, s')" by force
  show ?thesis
  proof (cases "handles s sig'")
    case None
    with assms have ne: "sig \<noteq> sig'" by auto
    from get_kernel_miss [OF None o] ne assms o show ?thesis
      by (auto simp: Get_kernel)
  next
    case (Some h')
    from get_kernel_hit [OF Some, of e src cfg] assms show ?thesis by (simp add: Get_kernel)
  qed
next
  case (Reset p)
  with assms show ?thesis by simp
qed

lemma run_keeps_handle:
  "handles s sig = Some h \<Longrightarrow> \<forall>op\<in>set ops. \<not> resets op \<Longrightarrow>
   handles (run e ops s) sig = Some h
   \<and> count_list (toolchain_log (run e ops s)) sig = count_list (toolchain_log s) sig"
proof (induction ops arbitrary: s)
  case Nil
  then show ?case by simp
next
  case (Cons op ops)
  from step_keeps_handle [of s sig h op e] Cons.prems
  have st: "handles (step e op s) sig = Some h"
    "count_list (toolchain_log (step e op s)) sig = count_list (toolchain_log s) sig"
    by simp_all
  from Cons.IH [OF st(1)] Cons.prems st(2) show ?case by simp
qed

lemmas registry_defs =
  get_kernel_def ensure_artifact_def load_artifact_def artifact_path_def
  init_cudalibs_def cdll_global_def

lemma first_request:
  "get_kernel linux_gpu ''k'' ''src'' ''cfg'' started =
     (Inr (Handle 0 ''/h/.cache/keops/build/k.so''),
      snd (get_kernel linux_gpu ''k'' ''src'' ''cfg'' started))
   \<and> toolchain_log (snd (get_kernel linux_gpu ''k'' ''src'' ''cfg'' started)) = [''k'']
   \<and> toolchain_log started = []"
  by (simp add: prod_eq_iff registry_defs call_defs)

text \<open>
  C1, as stated, fails: two requests with the same signature in one process, with a
  reset of the registry to another folder between them, get two different handles, and
  the compiler runs twice for the signature.
\<close>

theorem recompiled_after_reset:
  "fst (get_kernel linux_gpu ''k'' ''src'' ''cfg'' started)
     = Inr (Handle 0 ''/h/.cache/keops/build/k.so'')
   \<and> fst (get_kernel linux_gpu ''k'' ''src'' ''cfg''
            (step linux_gpu (Reset (Some ''/h''))
               (snd (get_kernel linux_gpu ''k'' ''src'' ''cfg'' started))))
     = Inr (Handle 1 ''/h/k.so'')
   \<and> toolchain_log
       (snd (get_kernel linux_gpu ''k'' ''src'' ''cfg''
               (step linux_gpu (Reset (Some ''/h''))
                  (snd (get_kernel linux_gpu ''k'' ''src'' ''cfg'' started)))))
     = [''k'', ''k'']"
  by (simp add: registry_defs call_defs)

text \<open>
  C1, amended. Once a request for a signature has returned a handle, every later request
  for that signature, whatever its source text and flags, returns the same handle from
  the map and leaves the whole state as it is, so it compiles nothing and touches no
  file. This holds after any calls in between (requests for any signature, failed ones
  too, \<open>init_cudalibs\<close>, \<open>set_build_folder\<close> without \<open>reset_all\<close>), as long as none
  of them resets the registry; those calls do not run the compiler for the signature
  either. The request that returned the first handle ran the compiler at most once.
\<close>

theorem same_handle_until_reset:
  assumes "get_kernel e sig src cfg s = (Inr h, s1)" and "\<forall>op\<in>set ops. \<not> resets op"
  shows "get_kernel e sig src' cfg' (run e ops s1) = (Inr h, run e ops s1)
       \<and> count_list (toolchain_log (run e ops s1)) sig = count_list (toolchain_log s1) sig
       \<and> count_list (toolchain_log s1) sig \<le> Suc (count_list (toolchain_log s) sig)"
  using run_keeps_handle [OF get_kernel_returns(1) [OF assms(1)] assms(2), of e]
    get_kernel_returns(2) [OF assms(1)]
  by (simp add: get_kernel_hit)

theorem same_handle_until_reset_witness:
  "get_kernel linux_gpu ''k'' ''src'' ''cfg'' started =
     (Inr (Handle 0 ''/h/.cache/keops/build/k.so''),
      snd (get_kernel linux_gpu ''k'' ''src'' ''cfg'' started))
   \<and> \<not> resets (Get_kernel ''j'' ''src2'' ''cfg'')
   \<and> \<not> resets (Set_build_folder (Some ''/h/b2'') False False)
   \<and> \<not> resets Init_cudalibs
   \<and> \<not> resets (Get_kernel ''bad'' [] ''cfg'')
   \<and> get_kernel linux_gpu ''k'' ''other'' ''cfg2''
        (run linux_gpu
           [Get_kernel ''j'' ''src2'' ''cfg'', Set_build_folder (Some ''/h/b2'') False False,
            Init_cudalibs, Get_kernel ''bad'' [] ''cfg'']
           (snd (get_kernel linux_gpu ''k'' ''src'' ''cfg'' started)))
       = (Inr (Handle 0 ''/h/.cache/keops/build/k.so''),
          run linux_gpu
           [Get_kernel ''j'' ''src2'' ''cfg'', Set_build_folder (Some ''/h/b2'') False False,
            Init_cudalibs, Get_kernel ''bad'' [] ''cfg'']
           (snd (get_kernel linux_gpu ''k'' ''src'' ''cfg'' started)))
   \<and> count_list
        (toolchain_log
          (run linux_gpu
             [Get_kernel ''j'' ''src2'' ''cfg'', Set_build_folder (Some ''/h/b2'') False False,
              Init_cudalibs, Get_kernel ''bad'' [] ''cfg'']
             (snd (get_kernel linux_gpu ''k'' ''src'' ''cfg'' started)))) ''k'' = 1"
proof -
  let ?ops = "[Get_kernel ''j'' ''src2'' ''cfg'', Set_build_folder (Some ''/h/b2'') False False,
               Init_cudalibs, Get_kernel ''bad'' [] ''cfg'']"
  let ?s1 = "snd (get_kernel linux_gpu ''k'' ''src'' ''cfg'' started)"
  have f: "get_kernel linux_gpu ''k'' ''src'' ''cfg'' started =
             (Inr (Handle 0 ''/h/.cache/keops/build/k.so''), ?s1)"
    and l: "toolchain_log ?s1 = [''k'']"
    using first_request by simp_all
  have q: "\<forall>op\<in>set ?ops. \<not> resets op" by simp
  from same_handle_until_reset [OF f q, of "''other''" "''cfg2''"] l
  have "get_kernel linux_gpu ''k'' ''other'' ''cfg2'' (run linux_gpu ?ops ?s1)
          = (Inr (Handle 0 ''/h/.cache/keops/build/k.so''), run linux_gpu ?ops ?s1)
        \<and> count_list (toolchain_log (run linux_gpu ?ops ?s1)) ''k'' = 1"
    by simp
  then show ?thesis using f by simp
qed

end
